theory Spec2Isabelle
  imports Complex_Main "HOL-Library.AList" "HOL-Library.Word" "HOL-Library.List_Lexorder"
    "HOL-Library.Char_ord" "HOL-Library.Multiset"
begin

section \<open>Memco: a shallow embedding of the storage and query engine\<close>

text \<open>
  The development follows the Python sources module by module:
  \<^item> \<^verbatim>\<open>memcore/memcore.py\<close>: \<^verbatim>\<open>MemoryRecord\<close>, \<^verbatim>\<open>MemoryBuilder\<close>, \<^verbatim>\<open>MemTable\<close>,
    \<^verbatim>\<open>MemHistory\<close>, \<^verbatim>\<open>MemCore\<close> and \<^verbatim>\<open>MemQLParser\<close>;
  \<^item> \<^verbatim>\<open>memco/vector_search.py\<close>: \<^verbatim>\<open>VectorSearch\<close>;
  \<^item> \<^verbatim>\<open>memco/mem.py\<close>: the binary record codec.

  Conventions. Python \<^verbatim>\<open>str\<close> is \<^typ>\<open>string\<close>. Python floats that are only compared,
  clamped or combined arithmetically (importance, timestamps, embedding components inside
  \<^verbatim>\<open>memcore.py\<close> and \<^verbatim>\<open>vector_search.py\<close>) are \<^typ>\<open>real\<close>; the codec of \<^verbatim>\<open>mem.py\<close>,
  where the byte representation matters, works on IEEE bit patterns instead. A Python
  \<^verbatim>\<open>dict\<close> whose iteration order is observable is an association list with distinct keys.
  A raised exception is a value \<open>Inl e\<close> of a sum type. The readings of the clock and of
  the random id generator during one operation are passed in explicitly (\<open>env\<close>).
\<close>

subsection \<open>Exceptions and the environment\<close>

datatype error =
    ValueError        \<comment> \<open>\<^verbatim>\<open>float()\<close>, \<^verbatim>\<open>int()\<close>, \<^verbatim>\<open>MemoryBuilder.build\<close>, numpy shape mismatch\<close>
  | StructError       \<comment> \<open>\<^verbatim>\<open>struct.error\<close>: not enough bytes, or a value out of range\<close>
  | UnicodeError      \<comment> \<open>\<^verbatim>\<open>bytes.decode('utf-8')\<close> or \<^verbatim>\<open>str.encode('utf-8')\<close> failed\<close>
  | ZlibError         \<comment> \<open>\<^verbatim>\<open>zlib.error\<close>\<close>
  | AttributeError    \<comment> \<open>method call on \<^verbatim>\<open>None\<close>\<close>
  | OverflowError     \<comment> \<open>\<^verbatim>\<open>struct.pack('<f', x)\<close> with \<open>x\<close> too large for binary32\<close>

text \<open>
  What lies outside the repository: the readings of the random id generator and of the
  clock during one operation, and the builtin conversions \<^verbatim>\<open>float()\<close> and \<^verbatim>\<open>int()\<close> of
  strings, \<open>None\<close> where they raise \<^verbatim>\<open>ValueError\<close>.
\<close>

record env =
  uuid4 :: string          \<comment> \<open>what \<^verbatim>\<open>str(uuid.uuid4())\<close> returns\<close>
  time_time :: real        \<comment> \<open>what \<^verbatim>\<open>time.time()\<close> returns\<close>
  strftime :: string       \<comment> \<open>what \<^verbatim>\<open>datetime.datetime.now().strftime("%Y%m%d%H%M%S")\<close> returns\<close>
  py_float :: "string \<Rightarrow> real option"
  py_int :: "string \<Rightarrow> int option"

subsection \<open>\<^verbatim>\<open>MemoryRecord\<close>\<close>

text \<open>
  The nine attributes of a \<^verbatim>\<open>MemoryRecord\<close>; \<^verbatim>\<open>to_dict()\<close> lists exactly these, so the same
  record type stands for the object and for its dictionary. The dictionary kept by
  \<^verbatim>\<open>MemTable\<close> has the additional key \<^verbatim>\<open>encrypted\<close>, and \<^verbatim>\<open>filter_func\<close> may add the key
  \<^verbatim>\<open>similarity_score\<close>.
\<close>

record memory_record =
  ident :: string                        \<comment> \<open>\<^verbatim>\<open>id\<close>\<close>
  content :: string
  tags :: "string list"
  metadata :: "(string \<times> string) list"
  importance :: real
  created_at :: real
  updated_at :: real
  source :: string
  embedding :: "real list"

record memory_dict = memory_record +
  encrypted :: bool
  similarity_score :: "real option"      \<comment> \<open>\<open>None\<close>: the key is absent\<close>

text \<open>
  \<^verbatim>\<open>MemoryRecord.__init__\<close>: \<^verbatim>\<open>id or str(uuid.uuid4())\<close>, \<^verbatim>\<open>created_at or time.time()\<close>,
  \<^verbatim>\<open>updated_at or self.created_at\<close>; the empty string and \<open>0.0\<close> are falsy. The other
  \<^verbatim>\<open>x or default\<close> expressions replace an empty value by an empty value.
\<close>

definition MemoryRecord_init ::
  "env \<Rightarrow> string \<Rightarrow> string \<Rightarrow> string list \<Rightarrow> (string \<times> string) list \<Rightarrow> real \<Rightarrow> real \<Rightarrow> real
     \<Rightarrow> string \<Rightarrow> real list \<Rightarrow> memory_record" where
  "MemoryRecord_init e i c tg md imp ca ua src emb =
     (let ca' = (if ca = 0 then time_time e else ca) in
      \<lparr>ident = (if i = [] then uuid4 e else i), content = c, tags = tg, metadata = md,
       importance = imp, created_at = ca', updated_at = (if ua = 0 then ca' else ua),
       source = src, embedding = emb\<rparr>)"

definition from_dict :: "env \<Rightarrow> memory_dict \<Rightarrow> memory_record" where
  "from_dict e d =
     MemoryRecord_init e (ident d) (content d) (tags d) (metadata d) (importance d)
       (created_at d) (updated_at d) (source d) (embedding d)"

definition to_dict :: "memory_record \<Rightarrow> bool \<Rightarrow> memory_dict" where
  \<comment> \<open>\<^verbatim>\<open>memory.to_dict()\<close> followed by \<^verbatim>\<open>memory_dict["encrypted"] = encrypted\<close>\<close>
  "to_dict m enc = memory_record.extend m \<lparr>encrypted = enc, similarity_score = None\<rparr>"

subsection \<open>\<^verbatim>\<open>MemoryBuilder\<close>\<close>

definition MemoryBuilder_init :: "env \<Rightarrow> memory_record" where
  \<comment> \<open>\<^verbatim>\<open>self.record = MemoryRecord()\<close> with the default arguments\<close>
  "MemoryBuilder_init e = MemoryRecord_init e [] [] [] [] (1/2) 0 0 [] []"

definition set_content :: "(string \<Rightarrow> real list) option \<Rightarrow> string \<Rightarrow> memory_record \<Rightarrow> memory_record" where
  "set_content ai_provider c r =
     (case ai_provider of
        Some get_embedding \<Rightarrow>
          if c \<noteq> [] then r\<lparr>content := c, embedding := get_embedding c\<rparr> else r\<lparr>content := c\<rparr>
      | None \<Rightarrow> r\<lparr>content := c\<rparr>)"

definition set_importance :: "real \<Rightarrow> memory_record \<Rightarrow> memory_record" where
  "set_importance x r = r\<lparr>importance := max 0 (min 1 x)\<rparr>"

definition set_source :: "string \<Rightarrow> memory_record \<Rightarrow> memory_record" where
  "set_source s r = r\<lparr>source := s\<rparr>"

definition build :: "env \<Rightarrow> memory_record \<Rightarrow> error + memory_record" where
  "build e r =
     (if content r = [] \<and> embedding r = [] then Inl ValueError
      else Inr (r\<lparr>ident := uuid4 e, created_at := time_time e\<rparr>))"

subsection \<open>\<^verbatim>\<open>MemTable\<close>\<close>

text \<open>
  \<^verbatim>\<open>self.memories\<close> is the index, a dictionary in insertion order. Each record also has a
  file \<^verbatim>\<open><id>.mem\<close>; a file either unpickles to a dictionary or fails to load.
\<close>

datatype mem_file = Pickled memory_dict | Unreadable

record mem_table =
  memories :: "(string \<times> memory_dict) list"
  mem_files :: "string \<rightharpoonup> mem_file"

definition MemTable_add_memory :: "mem_table \<Rightarrow> memory_record \<Rightarrow> bool \<Rightarrow> string \<times> mem_table" where
  "MemTable_add_memory t m enc =
     (let d = to_dict m enc in
      (ident m, t\<lparr>memories := AList.update (ident m) d (memories t),
                  mem_files := (mem_files t)(ident m \<mapsto> Pickled d)\<rparr>))"

definition MemTable_get_memory :: "mem_table \<Rightarrow> string \<Rightarrow> memory_dict option" where
  "MemTable_get_memory t i =
     (case map_of (memories t) i of
        None \<Rightarrow> None
      | Some m \<Rightarrow>
          (case mem_files t i of
             Some (Pickled d) \<Rightarrow> Some d
           | Some Unreadable \<Rightarrow> Some m
           | None \<Rightarrow> Some m))"

text \<open>
  The argument \<^verbatim>\<open>fields\<close> of \<^verbatim>\<open>update_memory\<close> is a dictionary from key to value; one
  constructor per key of the record, \<open>F_other k\<close> for any other key.
\<close>

datatype field_value =
    F_id string
  | F_content string
  | F_tags "string list"
  | F_metadata "(string \<times> string) list"
  | F_importance real
  | F_created_at real
  | F_updated_at real
  | F_source string
  | F_embedding "real list"
  | F_encrypted bool
  | F_other string

fun dict_setitem :: "field_value \<Rightarrow> memory_dict \<Rightarrow> memory_dict" where
  \<comment> \<open>\<^verbatim>\<open>if key in memory and key != "id": memory[key] = value\<close>\<close>
  "dict_setitem (F_id v) d = d"
| "dict_setitem (F_content v) d = d\<lparr>content := v\<rparr>"
| "dict_setitem (F_tags v) d = d\<lparr>tags := v\<rparr>"
| "dict_setitem (F_metadata v) d = d\<lparr>metadata := v\<rparr>"
| "dict_setitem (F_importance v) d = d\<lparr>importance := v\<rparr>"
| "dict_setitem (F_created_at v) d = d\<lparr>created_at := v\<rparr>"
| "dict_setitem (F_updated_at v) d = d\<lparr>updated_at := v\<rparr>"
| "dict_setitem (F_source v) d = d\<lparr>source := v\<rparr>"
| "dict_setitem (F_embedding v) d = d\<lparr>embedding := v\<rparr>"
| "dict_setitem (F_encrypted v) d = d\<lparr>encrypted := v\<rparr>"
| "dict_setitem (F_other k) d = d"

definition MemTable_update_memory ::
  "env \<Rightarrow> mem_table \<Rightarrow> string \<Rightarrow> field_value list \<Rightarrow> bool \<times> mem_table" where
  "MemTable_update_memory e t i flds =
     (case MemTable_get_memory t i of
        None \<Rightarrow> (False, t)
      | Some memory \<Rightarrow>
          (let memory' = (fold dict_setitem flds memory)\<lparr>updated_at := time_time e\<rparr> in
           (True, t\<lparr>memories := AList.update i memory' (memories t),
                    mem_files := (mem_files t)(i \<mapsto> Pickled memory')\<rparr>)))"

definition MemTable_delete_memory :: "mem_table \<Rightarrow> string \<Rightarrow> bool \<times> mem_table" where
  "MemTable_delete_memory t i =
     (case map_of (memories t) i of
        None \<Rightarrow> (False, t)
      | Some m \<Rightarrow>
          (True, t\<lparr>memories := AList.delete i (memories t), mem_files := (mem_files t)(i := None)\<rparr>))"

text \<open>
  \<^verbatim>\<open>query\<close>. The predicate \<^verbatim>\<open>query_func\<close> may raise, and \<^verbatim>\<open>filter_func\<close> also writes the key
  \<^verbatim>\<open>similarity_score\<close> into the dictionary it is given: a predicate is a function that fails,
  rejects the dictionary (\<open>None\<close>) or keeps it, possibly with that key set. The dictionary
  passed to it is the unpickled file; when the file is missing or cannot be loaded, it is
  the entry of the index (\<^verbatim>\<open>pass  # Use the in-memory version if file can't be loaded\<close>).
  Where a caller writes into a dictionary that is the index entry itself
  (\<^verbatim>\<open>similarity_score\<close>, or a decrypted field), the change of the index is not tracked.
\<close>

type_synonym query_func = "memory_dict \<Rightarrow> error + memory_dict option"

definition pure_pred :: "(memory_dict \<Rightarrow> bool) \<Rightarrow> query_func" where
  \<comment> \<open>a predicate that neither raises nor writes\<close>
  "pure_pred p = (\<lambda>d. Inr (if p d then Some d else None))"

definition load_or_index :: "(string \<rightharpoonup> mem_file) \<Rightarrow> string \<times> memory_dict \<Rightarrow> memory_dict" where
  "load_or_index fs = (\<lambda>(memory_id, memory).
     (case fs memory_id of
        Some (Pickled d) \<Rightarrow> d
      | Some Unreadable \<Rightarrow> memory
      | None \<Rightarrow> memory))"

fun query_loop :: "query_func \<Rightarrow> (string \<rightharpoonup> mem_file) \<Rightarrow> (string \<times> memory_dict) list \<Rightarrow> error + memory_dict list" where
  "query_loop qf fs [] = Inr []"
| "query_loop qf fs (entry # entries) =
     (case qf (load_or_index fs entry) of
        Inl err \<Rightarrow> Inl err
      | Inr kept \<Rightarrow>
          (case query_loop qf fs entries of
             Inl err \<Rightarrow> Inl err
           | Inr results \<Rightarrow> Inr ((case kept of Some d \<Rightarrow> [d] | None \<Rightarrow> []) @ results)))"

definition MemTable_query :: "mem_table \<Rightarrow> query_func \<Rightarrow> error + memory_dict list" where
  "MemTable_query t qf = query_loop qf (mem_files t) (memories t)"

subsection \<open>\<^verbatim>\<open>MemHistory\<close>: writing\<close>

text \<open>
  One directory per record id; a directory is a dictionary from file name to file, so that
  writing under an existing name replaces the file. \<open>None\<close>: the directory does not exist.
\<close>

datatype memh_file = Memh memory_record | Memh_unreadable

type_synonym mem_history = "string \<rightharpoonup> (string \<times> memh_file) list"

definition history_file :: "env \<Rightarrow> string \<Rightarrow> string" where
  \<comment> \<open>\<^verbatim>\<open>f"{timestamp}_{action}.memh"\<close>\<close>
  "history_file e action = strftime e @ ''_'' @ action @ ''.memh''"

definition add_history :: "env \<Rightarrow> mem_history \<Rightarrow> memory_record \<Rightarrow> string \<Rightarrow> mem_history" where
  "add_history e h memory action =
     h(ident memory \<mapsto>
         AList.update (history_file e action) (Memh memory)
           (case h (ident memory) of None \<Rightarrow> [] | Some dir \<Rightarrow> dir))"

subsection \<open>\<^verbatim>\<open>VectorSearch\<close>\<close>

text \<open>
  The rows of the table \<^verbatim>\<open>vectors\<close> (\<^verbatim>\<open>id TEXT PRIMARY KEY, vector, metadata\<close>), in the order
  in which \<^verbatim>\<open>SELECT\<close> returns them. \<^verbatim>\<open>INSERT\<close> of an existing id raises, which \<^verbatim>\<open>add_vector\<close>
  catches.
\<close>

type_synonym 'm vectors = "(string \<times> real list \<times> 'm) list"

definition add_vector :: "'m vectors \<Rightarrow> string \<Rightarrow> real list \<Rightarrow> 'm \<Rightarrow> bool \<times> 'm vectors" where
  "add_vector rows i v md =
     (if i \<in> fst ` set rows then (False, rows) else (True, rows @ [(i, v, md)]))"

definition update_vector :: "'m vectors \<Rightarrow> string \<Rightarrow> real list \<Rightarrow> 'm \<Rightarrow> bool \<times> 'm vectors" where
  "update_vector rows i v md =
     (i \<in> fst ` set rows, map (\<lambda>(j, w, n). if j = i then (j, v, md) else (j, w, n)) rows)"

definition delete_vector :: "'m vectors \<Rightarrow> string \<Rightarrow> bool \<times> 'm vectors" where
  "delete_vector rows i = (i \<in> fst ` set rows, filter (\<lambda>(j, w, n). j \<noteq> i) rows)"

text \<open>
  \<^verbatim>\<open>_cosine_similarity\<close> is called with numpy arrays by \<^verbatim>\<open>search\<close> and with plain Python
  lists by \<^verbatim>\<open>filter_func\<close>. For an array, \<^verbatim>\<open>a == 0\<close> compares elementwise; for a list it is
  the single value \<^verbatim>\<open>False\<close>, so that the guard never fires. \<^verbatim>\<open>np.dot\<close> raises \<^verbatim>\<open>ValueError\<close> on
  vectors of different lengths; a numpy division \<open>0/0\<close> yields \<^verbatim>\<open>nan\<close>.
\<close>

datatype vec = Array "real list" | PyList "real list"

datatype np_float = Num real | NaN

fun elems :: "vec \<Rightarrow> real list" where
  "elems (Array xs) = xs"
| "elems (PyList xs) = xs"

fun all_zero :: "vec \<Rightarrow> bool" where
  \<comment> \<open>\<^verbatim>\<open>np.all(a == 0)\<close>\<close>
  "all_zero (Array xs) = list_all (\<lambda>x. x = 0) xs"
| "all_zero (PyList xs) = False"

definition dot :: "real list \<Rightarrow> real list \<Rightarrow> real" where
  "dot xs ys = sum_list (map2 (*) xs ys)"

definition norm2 :: "real list \<Rightarrow> real" where
  \<comment> \<open>\<^verbatim>\<open>np.linalg.norm\<close>\<close>
  "norm2 xs = sqrt (dot xs xs)"

definition cosine_similarity :: "vec \<Rightarrow> vec \<Rightarrow> error + np_float" where
  "cosine_similarity a b =
     (if all_zero a \<or> all_zero b then Inr (Num 0)
      else if length (elems a) \<noteq> length (elems b) then Inl ValueError
      else if norm2 (elems a) * norm2 (elems b) = 0 then Inr NaN
      else Inr (Num (dot (elems a) (elems b) / (norm2 (elems a) * norm2 (elems b)))))"



definition sort_reverse :: "('a \<Rightarrow> real) \<Rightarrow> 'a list \<Rightarrow> 'a list" where
  "sort_reverse k xs = sort_key (\<lambda>x. - k x) xs"

definition slice_to :: "'a list \<Rightarrow> int \<Rightarrow> 'a list" where
  \<comment> \<open>\<^verbatim>\<open>xs[:n]\<close>\<close>
  "slice_to xs n = (if 0 \<le> n then take (nat n) xs else take (length xs - nat (- n)) xs)"


subsection \<open>Python string operations\<close>

text \<open>
  The operations of \<^verbatim>\<open>str\<close> that the sources use, on strings of one-byte characters.
  \<^verbatim>\<open>find\<close> returns \<open>-1\<close> when there is no occurrence.
\<close>

definition startswith :: "string \<Rightarrow> string \<Rightarrow> bool" where
  "startswith s p = (take (length p) s = p)"

definition endswith :: "string \<Rightarrow> string \<Rightarrow> bool" where
  "endswith s p = (length p \<le> length s \<and> drop (length s - length p) s = p)"

fun contains :: "string \<Rightarrow> string \<Rightarrow> bool" where
  \<comment> \<open>\<^verbatim>\<open>sub in s\<close>\<close>
  "contains [] sub = (sub = [])"
| "contains (c # cs) sub = (startswith (c # cs) sub \<or> contains cs sub)"

fun str_find :: "string \<Rightarrow> string \<Rightarrow> int" where
  \<comment> \<open>\<^verbatim>\<open>s.find(sub)\<close>\<close>
  "str_find [] sub = (if sub = [] then 0 else - 1)"
| "str_find (c # cs) sub =
     (if startswith (c # cs) sub then 0
      else (let i = str_find cs sub in if i < 0 then - 1 else i + 1))"

definition slice_from :: "'a list \<Rightarrow> int \<Rightarrow> 'a list" where
  \<comment> \<open>\<^verbatim>\<open>s[i:]\<close>\<close>
  "slice_from s i = (if 0 \<le> i then drop (nat i) s else drop (length s - nat (- i)) s)"

definition slice :: "'a list \<Rightarrow> int \<Rightarrow> int \<Rightarrow> 'a list" where
  \<comment> \<open>\<^verbatim>\<open>s[i:j]\<close> for \<open>0 \<le> i\<close>\<close>
  "slice s i j = drop (nat i) (slice_to s j)"

definition unquote :: "string \<Rightarrow> string" where
  \<comment> \<open>\<^verbatim>\<open>s[1:-1]\<close>\<close>
  "unquote s = butlast (tl s)"

definition upper_char :: "char \<Rightarrow> char" where
  "upper_char c =
     (case map_of (zip ''abcdefghijklmnopqrstuvwxyz'' ''ABCDEFGHIJKLMNOPQRSTUVWXYZ'') c of
        Some u \<Rightarrow> u
      | None \<Rightarrow> c)"

definition lower_char :: "char \<Rightarrow> char" where
  "lower_char c =
     (case map_of (zip ''ABCDEFGHIJKLMNOPQRSTUVWXYZ'' ''abcdefghijklmnopqrstuvwxyz'') c of
        Some l \<Rightarrow> l
      | None \<Rightarrow> c)"

definition upper :: "string \<Rightarrow> string" where
  "upper s = map upper_char s"

definition lower :: "string \<Rightarrow> string" where
  "lower s = map lower_char s"

definition is_space :: "char \<Rightarrow> bool" where
  "is_space c = (c \<in> set [CHR '' '', CHR 0x09, CHR 0x0A, CHR 0x0B, CHR 0x0C, CHR 0x0D,
                            CHR 0x1C, CHR 0x1D, CHR 0x1E, CHR 0x1F])"

definition strip :: "string \<Rightarrow> string" where
  "strip s = rev (dropWhile is_space (rev (dropWhile is_space s)))"

lemma startswith_length: "startswith s p \<Longrightarrow> length p \<le> length s"
proof -
  assume "startswith s p"
  then have "length (take (length p) s) = length p" by (simp add: startswith_def)
  then show ?thesis by (simp add: min_def split: if_splits)
qed

lemma contains_find:
  "contains s sub \<Longrightarrow> 0 \<le> str_find s sub \<and> nat (str_find s sub) + length sub \<le> length s"
proof (induction s)
  case Nil
  then show ?case by simp
next
  case (Cons c cs)
  show ?case
  proof (cases "startswith (c # cs) sub")
    case True
    with startswith_length [OF True] show ?thesis by simp
  next
    case False
    with Cons show ?thesis by (auto simp: Let_def)
  qed
qed

lemma contains_drop_less:
  "sep \<noteq> [] \<Longrightarrow> contains s sep \<Longrightarrow> length s - (nat (str_find s sep) + length sep) < length s"
  using contains_find [of s sep] by (cases sep) auto

function split :: "string \<Rightarrow> string \<Rightarrow> string list" where
  \<comment> \<open>\<^verbatim>\<open>s.split(sep)\<close> for a nonempty \<open>sep\<close> (Python raises on an empty one)\<close>
  "split s sep =
     (if sep = [] \<or> \<not> contains s sep then [s]
      else take (nat (str_find s sep)) s # split (drop (nat (str_find s sep) + length sep) s) sep)"
  by pat_completeness auto

termination split
  by (relation "measure (\<lambda>(s, sep). length s)") (auto intro: contains_drop_less)

definition split1 :: "string \<Rightarrow> string \<Rightarrow> string list" where
  \<comment> \<open>\<^verbatim>\<open>s.split(sep, 1)\<close> for a nonempty \<open>sep\<close>\<close>
  "split1 s sep =
     (if sep = [] \<or> \<not> contains s sep then [s]
      else [take (nat (str_find s sep)) s, drop (nat (str_find s sep) + length sep) s])"

function replace :: "string \<Rightarrow> string \<Rightarrow> string \<Rightarrow> string" where
  \<comment> \<open>\<^verbatim>\<open>s.replace(old, new)\<close> for a nonempty \<open>old\<close>\<close>
  "replace s old new =
     (if old = [] \<or> \<not> contains s old then s
      else take (nat (str_find s old)) s @ new @ replace (drop (nat (str_find s old) + length old) s) old new)"
  by pat_completeness auto

termination replace
  by (relation "measure (\<lambda>(s, old, new). length s)") (auto intro: contains_drop_less)

declare split.simps [simp del] replace.simps [simp del]

lemma split_absent: "\<not> contains s sep \<Longrightarrow> split s sep = [s]"
  by (subst split.simps) simp

lemma split_present:
  "sep \<noteq> [] \<Longrightarrow> contains s sep \<Longrightarrow>
     split s sep = take (nat (str_find s sep)) s # split (drop (nat (str_find s sep) + length sep) s) sep"
  by (subst split.simps) simp

lemma replace_absent: "\<not> contains s old \<Longrightarrow> replace s old new = s"
  by (subst replace.simps) simp

lemma replace_present:
  "old \<noteq> [] \<Longrightarrow> contains s old \<Longrightarrow>
     replace s old new =
       take (nat (str_find s old)) s @ new @ replace (drop (nat (str_find s old) + length old) s) old new"
  by (subst replace.simps) simp

lemmas str_eval =
  startswith_def endswith_def split_absent split_present split1_def replace_absent replace_present
  upper_def lower_def upper_char_def lower_char_def strip_def is_space_def unquote_def
  slice_from_def slice_def slice_to_def

subsection \<open>\<^verbatim>\<open>MemHistory\<close>: reading\<close>





subsection \<open>\<^verbatim>\<open>MemCore\<close>: encryption\<close>

text \<open>
  A \<^verbatim>\<open>Fernet\<close> instance, as its two operations on strings:
  \<^verbatim>\<open>key.encrypt(s.encode()).decode()\<close> and \<^verbatim>\<open>key.decrypt(s.encode()).decode()\<close>, the second
  being \<open>None\<close> when any step of it raises (a token that does not verify under this key, a
  malformed token, undecodable bytes).
\<close>

record fernet =
  fernet_encrypt :: "string \<Rightarrow> string"
  fernet_decrypt :: "string \<Rightarrow> string option"

text \<open>
  The values \<^verbatim>\<open>_encrypt_data\<close> and \<^verbatim>\<open>_decrypt_data\<close> recurse over: strings, lists,
  dictionaries, and values of any other type (kept with their \<^verbatim>\<open>str()\<close> rendering).
\<close>

datatype pyval = Str string | List "pyval list" | Dict "(string \<times> pyval) list" | Other string

definition encrypt_str :: "fernet option \<Rightarrow> string \<Rightarrow> string" where
  "encrypt_str key s = (case key of None \<Rightarrow> s | Some f \<Rightarrow> fernet_encrypt f s)"

definition decrypt_str :: "fernet option \<Rightarrow> string \<Rightarrow> string" where
  \<comment> \<open>\<^verbatim>\<open>try: return key.decrypt(...) except: return data\<close>\<close>
  "decrypt_str key s =
     (case key of
        None \<Rightarrow> s
      | Some f \<Rightarrow> (case fernet_decrypt f s of Some p \<Rightarrow> p | None \<Rightarrow> s))"

fun encrypt_data :: "fernet option \<Rightarrow> pyval \<Rightarrow> pyval" where
  "encrypt_data None v = v"
| "encrypt_data (Some f) (Str s) = Str (encrypt_str (Some f) s)"
| "encrypt_data (Some f) (List vs) = List (map (encrypt_data (Some f)) vs)"
| "encrypt_data (Some f) (Dict kvs) = Dict (map (\<lambda>(k, v). (k, encrypt_data (Some f) v)) kvs)"
| "encrypt_data (Some f) (Other s) = Str (encrypt_str (Some f) s)"

fun decrypt_data :: "fernet option \<Rightarrow> pyval \<Rightarrow> pyval" where
  "decrypt_data None v = v"
| "decrypt_data (Some f) (Str s) = Str (decrypt_str (Some f) s)"
| "decrypt_data (Some f) (List vs) = List (map (decrypt_data (Some f)) vs)"
| "decrypt_data (Some f) (Dict kvs) = Dict (map (\<lambda>(k, v). (k, decrypt_data (Some f) v)) kvs)"
| "decrypt_data (Some f) (Other s) = Other s"

text \<open>The four fields that \<^verbatim>\<open>MemCore\<close> encrypts, as values.\<close>

definition encrypt_fields :: "fernet option \<Rightarrow> memory_record \<Rightarrow> memory_record" where
  "encrypt_fields key m =
     m\<lparr>content := encrypt_str key (content m),
       tags := map (encrypt_str key) (tags m),
       source := encrypt_str key (source m),
       metadata := map (\<lambda>(k, v). (k, encrypt_str key v)) (metadata m)\<rparr>"

definition decrypt_fields :: "fernet option \<Rightarrow> memory_dict \<Rightarrow> memory_dict" where
  "decrypt_fields key d =
     d\<lparr>content := decrypt_str key (content d),
       tags := map (decrypt_str key) (tags d),
       source := decrypt_str key (source d),
       metadata := map (\<lambda>(k, v). (k, decrypt_str key v)) (metadata d)\<rparr>"

subsection \<open>\<^verbatim>\<open>MemCore\<close>: records\<close>

type_synonym vec_meta = "string \<times> string list \<times> real"
  \<comment> \<open>\<^verbatim>\<open>{"content": ..., "tags": ..., "importance": ...}\<close>\<close>

record memcore =
  encryption_key :: "fernet option"
  embedding_provider :: "(string \<Rightarrow> real list) option"
  table :: mem_table
  history :: mem_history
  vector_search :: "vec_meta vectors"

definition MemCore_add_memory :: "env \<Rightarrow> memcore \<Rightarrow> memory_record \<Rightarrow> bool \<Rightarrow> string \<times> memcore" where
  "MemCore_add_memory e c memory0 enc =
     (let memory1 =
            (case embedding_provider c of
               Some get_embedding \<Rightarrow>
                 if embedding memory0 = [] then memory0\<lparr>embedding := get_embedding (content memory0)\<rparr>
                 else memory0
             | None \<Rightarrow> memory0);
          original_content = content memory1;
          original_tags = tags memory1;
          memory =
            (if enc \<and> encryption_key c \<noteq> None then encrypt_fields (encryption_key c) memory1
             else memory1);
          (memory_id, t) = MemTable_add_memory (table c) memory enc;
          h = add_history e (history c) memory ''create'';
          vs = (if embedding memory \<noteq> []
                then snd (add_vector (vector_search c) memory_id (embedding memory)
                           (original_content, original_tags, importance memory))
                else vector_search c)
      in (memory_id, c\<lparr>table := t, history := h, vector_search := vs\<rparr>))"

definition MemCore_get_memory :: "env \<Rightarrow> memcore \<Rightarrow> string \<Rightarrow> memory_record option" where
  "MemCore_get_memory e c i =
     (case MemTable_get_memory (table c) i of
        None \<Rightarrow> None
      | Some d \<Rightarrow>
          Some (from_dict e
                 (if encrypted d \<and> encryption_key c \<noteq> None then decrypt_fields (encryption_key c) d
                  else d)))"

fun setattr :: "field_value \<Rightarrow> memory_record \<Rightarrow> memory_record" where
  \<comment> \<open>\<^verbatim>\<open>if hasattr(memory, key) and key != "id": setattr(memory, key, value)\<close>\<close>
  "setattr (F_id v) m = m"
| "setattr (F_content v) m = m\<lparr>content := v\<rparr>"
| "setattr (F_tags v) m = m\<lparr>tags := v\<rparr>"
| "setattr (F_metadata v) m = m\<lparr>metadata := v\<rparr>"
| "setattr (F_importance v) m = m\<lparr>importance := v\<rparr>"
| "setattr (F_created_at v) m = m\<lparr>created_at := v\<rparr>"
| "setattr (F_updated_at v) m = m\<lparr>updated_at := v\<rparr>"
| "setattr (F_source v) m = m\<lparr>source := v\<rparr>"
| "setattr (F_embedding v) m = m\<lparr>embedding := v\<rparr>"
| "setattr (F_encrypted v) m = m"
| "setattr (F_other k) m = m"

fun is_content :: "field_value \<Rightarrow> bool" where
  "is_content (F_content v) = True"
| "is_content f = False"

fun is_embedding :: "field_value \<Rightarrow> bool" where
  "is_embedding (F_embedding v) = True"
| "is_embedding f = False"

definition update_dict :: "memory_record \<Rightarrow> field_value list" where
  \<comment> \<open>\<^verbatim>\<open>{k: v for k, v in memory.to_dict().items() if k != "id"}\<close>\<close>
  "update_dict m =
     [F_content (content m), F_tags (tags m), F_metadata (metadata m),
      F_importance (importance m), F_created_at (created_at m), F_updated_at (updated_at m),
      F_source (source m), F_embedding (embedding m)]"

definition MemCore_update_memory ::
  "env \<Rightarrow> memcore \<Rightarrow> string \<Rightarrow> field_value list \<Rightarrow> bool \<times> memcore" where
  "MemCore_update_memory e c i flds =
     (case MemCore_get_memory e c i of
        None \<Rightarrow> (False, c)
      | Some memory0 \<Rightarrow>
          (let was_encrypted =
                 (case MemTable_get_memory (table c) i of Some d \<Rightarrow> encrypted d | None \<Rightarrow> False);
               memory1 = fold setattr flds memory0;
               content_changed = list_ex is_content flds;
               memory2 =
                 (case embedding_provider c of
                    Some get_embedding \<Rightarrow>
                      if content_changed then memory1\<lparr>embedding := get_embedding (content memory1)\<rparr>
                      else memory1
                  | None \<Rightarrow> memory1);
               original_content = content memory2;
               original_tags = tags memory2;
               memory =
                 (if was_encrypted \<and> encryption_key c \<noteq> None
                  then encrypt_fields (encryption_key c) memory2 else memory2);
               (success, t) = MemTable_update_memory e (table c) i (update_dict memory)
           in if success
              then (True,
                    c\<lparr>table := t,
                      history := add_history e (history c) memory ''update'',
                      vector_search :=
                        (if embedding memory \<noteq> [] \<and> (content_changed \<or> list_ex is_embedding flds)
                         then snd (update_vector (vector_search c) i (embedding memory)
                                    (original_content, original_tags, importance memory))
                         else vector_search c)\<rparr>)
              else (False, c\<lparr>table := t\<rparr>)))"

definition updated_record :: "env \<Rightarrow> memcore \<Rightarrow> memory_dict \<Rightarrow> field_value list \<Rightarrow> memory_record" where
  \<comment> \<open>the record that \<^verbatim>\<open>MemCore.update_memory\<close> hands to the table, for a stored dictionary \<open>d\<close>\<close>
  "updated_record e c d flds =
     (let memory0 = from_dict e
            (if encrypted d \<and> encryption_key c \<noteq> None then decrypt_fields (encryption_key c) d else d);
          memory1 = fold setattr flds memory0;
          memory2 =
            (case embedding_provider c of
               Some get_embedding \<Rightarrow>
                 if list_ex is_content flds then memory1\<lparr>embedding := get_embedding (content memory1)\<rparr>
                 else memory1
             | None \<Rightarrow> memory1)
      in if encrypted d \<and> encryption_key c \<noteq> None
         then encrypt_fields (encryption_key c) memory2 else memory2)"

definition MemCore_delete_memory :: "env \<Rightarrow> memcore \<Rightarrow> string \<Rightarrow> bool \<times> memcore" where
  "MemCore_delete_memory e c i =
     (case MemCore_get_memory e c i of
        None \<Rightarrow> (False, c)
      | Some memory \<Rightarrow>
          (let (success, t) = MemTable_delete_memory (table c) i
           in if success
              then (True,
                    c\<lparr>table := t,
                      history := add_history e (history c) memory ''delete'',
                      vector_search := snd (delete_vector (vector_search c) i)\<rparr>)
              else (False, c\<lparr>table := t\<rparr>)))"

subsection \<open>\<^verbatim>\<open>MemQLParser\<close>: SELECT\<close>

definition dquote :: string where
  "dquote = [CHR 0x22]"

definition squote :: string where
  "squote = [CHR 0x27]"

definition second_part :: "string \<Rightarrow> string \<Rightarrow> string" where
  \<comment> \<open>\<^verbatim>\<open>s.split(sep)[1]\<close>, evaluated only where \<^verbatim>\<open>sep in s\<close>\<close>
  "second_part s sep = (case split s sep of a # b # rest \<Rightarrow> b | _ \<Rightarrow> [])"

definition clause_value :: "string \<Rightarrow> string" where
  \<comment> \<open>\<^verbatim>\<open>v = where_clause.split("=")[1].strip()\<close>, without its double quotes if it has them\<close>
  "clause_value where_clause =
     (let v = strip (second_part where_clause ''='')
      in if startswith v dquote \<and> endswith v dquote then unquote v else v)"

definition compare_clause :: "env \<Rightarrow> string \<Rightarrow> real \<Rightarrow> error + bool option" where
  \<comment> \<open>the chain \<^verbatim>\<open>if ">=" in where_clause: ... elif "<=" ... elif ">" ... elif "<" ...\<close>;
      \<open>None\<close> when no operator occurs and control falls through\<close>
  "compare_clause e where_clause x =
     (if contains where_clause ''>='' then
        (case py_float e (strip (second_part where_clause ''>='')) of
           None \<Rightarrow> Inl ValueError | Some v \<Rightarrow> Inr (Some (x \<ge> v)))
      else if contains where_clause ''<='' then
        (case py_float e (strip (second_part where_clause ''<='')) of
           None \<Rightarrow> Inl ValueError | Some v \<Rightarrow> Inr (Some (x \<le> v)))
      else if contains where_clause ''>'' then
        (case py_float e (strip (second_part where_clause ''>'')) of
           None \<Rightarrow> Inl ValueError | Some v \<Rightarrow> Inr (Some (x > v)))
      else if contains where_clause ''<'' then
        (case py_float e (strip (second_part where_clause ''<'')) of
           None \<Rightarrow> Inl ValueError | Some v \<Rightarrow> Inr (Some (x < v)))
      else Inr None)"

definition keep :: "bool \<Rightarrow> memory_dict \<Rightarrow> error + memory_dict option" where
  "keep b memory = Inr (if b then Some memory else None)"

definition where_filter :: "env \<Rightarrow> string \<Rightarrow> query_func" where
  \<comment> \<open>\<^verbatim>\<open>filter_func\<close> from \<^verbatim>\<open>if not where_clause\<close> on\<close>
  "where_filter e where_clause memory =
     (if where_clause = [] then keep True memory
      else if contains where_clause ''tags'' \<and> contains where_clause ''='' then
        keep (list_ex (\<lambda>tag. contains (lower tag) (lower (clause_value where_clause))) (tags memory)) memory
      else if contains where_clause ''encrypted'' \<and> contains where_clause ''='' then
        keep (encrypted memory = (lower (clause_value where_clause) = ''true'')) memory
      else if contains where_clause ''content'' \<and> contains where_clause ''='' then
        keep (contains (lower (content memory)) (lower (clause_value where_clause))) memory
      else if contains where_clause ''id'' \<and> contains where_clause ''='' then
        keep (lower (ident memory) = lower (clause_value where_clause)) memory
      else
        (case (if contains where_clause ''importance''
               then compare_clause e where_clause (importance memory) else Inr None) of
           Inl err \<Rightarrow> Inl err
         | Inr (Some b) \<Rightarrow> keep b memory
         | Inr None \<Rightarrow>
        (case (if contains where_clause ''created_at''
               then compare_clause e where_clause (created_at memory) else Inr None) of
           Inl err \<Rightarrow> Inl err
         | Inr (Some b) \<Rightarrow> keep b memory
         | Inr None \<Rightarrow>
        (case (if contains where_clause ''updated_at''
               then compare_clause e where_clause (updated_at memory) else Inr None) of
           Inl err \<Rightarrow> Inl err
         | Inr (Some b) \<Rightarrow> keep b memory
         | Inr None \<Rightarrow>
        (if contains where_clause ''source'' \<and> contains where_clause ''='' then
           keep (contains (lower (source memory)) (lower (clause_value where_clause))) memory
         else keep True memory)))))"

definition filter_func :: "env \<Rightarrow> real list option \<Rightarrow> real \<Rightarrow> string \<Rightarrow> query_func" where
  \<comment> \<open>\<open>vector_search_vector = None\<close>: \<^verbatim>\<open>vector_search\<close> is \<^verbatim>\<open>False\<close>\<close>
  "filter_func e vector_search_vector vector_score where_clause memory =
     (case vector_search_vector of
        Some v \<Rightarrow>
          (if embedding memory = [] then Inr None
           else
             (case cosine_similarity (PyList (embedding memory)) (PyList v) of
                Inl err \<Rightarrow> Inl err
              | Inr NaN \<Rightarrow> Inr None
              | Inr (Num score) \<Rightarrow>
                  keep (score > vector_score) (memory\<lparr>similarity_score := Some score\<rparr>)))
      | None \<Rightarrow> where_filter e where_clause memory)"

definition select_where :: "string \<Rightarrow> string" where
  "select_where query =
     (if contains (upper query) ''WHERE'' then
        (let where_clause = slice_from query (str_find (upper query) ''WHERE'' + 5)
         in if contains (upper where_clause) ''ORDER BY''
            then strip (slice_to where_clause (str_find (upper where_clause) ''ORDER BY''))
            else where_clause)
      else [])"

definition select_order :: "string \<Rightarrow> string \<times> bool" where
  \<comment> \<open>\<^verbatim>\<open>order_by\<close> and \<^verbatim>\<open>order_desc\<close>\<close>
  "select_order query =
     (if contains (upper query) ''ORDER BY'' then
        (let order_by = strip (slice_from query (str_find (upper query) ''ORDER BY'' + 8))
         in if contains (upper order_by) ''DESC''
            then (strip (replace (upper order_by) ''DESC'' []), True)
            else (order_by, False))
      else ([], False))"

definition select_limit :: "env \<Rightarrow> string \<Rightarrow> error + int" where
  "select_limit e query =
     (if contains (upper query) ''LIMIT'' then
        (case py_int e (strip (slice_from query (str_find (upper query) ''LIMIT'' + 5))) of
           None \<Rightarrow> Inl ValueError
         | Some n \<Rightarrow> Inr n)
      else Inr 50)"

definition select_vector :: "memcore \<Rightarrow> string \<Rightarrow> error + real list option" where
  "select_vector c query =
     (if contains (upper query) ''VECTOR'' then
        (let q = strip (slice_from query (str_find (upper query) ''VECTOR'' + 6));
             vector_search_query =
               (if startswith q squote \<and> endswith q squote then unquote q
                else if startswith q dquote \<and> endswith q dquote then unquote q
                else q)
         in case embedding_provider c of
              None \<Rightarrow> Inl AttributeError
            | Some get_embedding \<Rightarrow> Inr (Some (get_embedding vector_search_query)))
      else Inr None)"

definition select_score :: "env \<Rightarrow> string \<Rightarrow> error + real" where
  "select_score e query =
     (if contains (upper query) ''SCORE'' then
        (case py_float e (strip (slice_from query (str_find (upper query) ''SCORE'' + 6))) of
           None \<Rightarrow> Inl ValueError
         | Some x \<Rightarrow> Inr x)
      else Inr (1/2))"

definition py_sort :: "('a \<Rightarrow> real) \<Rightarrow> bool \<Rightarrow> 'a list \<Rightarrow> 'a list" where
  \<comment> \<open>\<^verbatim>\<open>xs.sort(key=k, reverse=r)\<close>: stable in both directions\<close>
  "py_sort k r xs = (if r then sort_reverse k xs else sort_key k xs)"

definition sort_results :: "string \<times> bool \<Rightarrow> memory_dict list \<Rightarrow> memory_dict list" where
  "sort_results ord results =
     (case ord of (order_by, order_desc) \<Rightarrow>
        if order_by = [] then results
        else if lower order_by = ''importance'' then py_sort importance order_desc results
        else if lower order_by = ''created_at'' then py_sort created_at order_desc results
        else if lower order_by = ''updated_at'' then py_sort updated_at order_desc results
        else if lower order_by = ''similarity_score''
        then py_sort (\<lambda>x. case similarity_score x of None \<Rightarrow> 0 | Some s \<Rightarrow> s) order_desc results
        else results)"

definition to_record :: "env \<Rightarrow> memcore \<Rightarrow> memory_dict \<Rightarrow> memory_record" where
  \<comment> \<open>the body of the loop \<^verbatim>\<open>for result in results\<close>: only \<^verbatim>\<open>content\<close> is decrypted\<close>
  "to_record e c result =
     from_dict e
       (if encrypted result \<and> encryption_key c \<noteq> None
        then result\<lparr>content := decrypt_str (encryption_key c) (content result)\<rparr>
        else result)"

definition apply_limit :: "int \<Rightarrow> 'a list \<Rightarrow> 'a list" where
  \<comment> \<open>\<^verbatim>\<open>if limit > 0: memories = memories[:limit]\<close>\<close>
  "apply_limit limit ms = (if limit > 0 then slice_to ms limit else ms)"

definition execute_select :: "env \<Rightarrow> memcore \<Rightarrow> string \<Rightarrow> error + memory_record list" where
  "execute_select e c query0 =
     (let query = (if startswith (upper query0) ''SELECT'' then query0 else ''SELECT '' @ query0)
      in case select_limit e query of
           Inl err \<Rightarrow> Inl err
         | Inr limit \<Rightarrow>
        (case select_vector c query of
           Inl err \<Rightarrow> Inl err
         | Inr vector_search_vector \<Rightarrow>
        (case select_score e query of
           Inl err \<Rightarrow> Inl err
         | Inr vector_score \<Rightarrow>
        (case MemTable_query (table c)
                (filter_func e vector_search_vector vector_score (select_where query)) of
           Inl err \<Rightarrow> Inl err
         | Inr results \<Rightarrow>
             Inr (apply_limit limit
                    (map (to_record e c) (sort_results (select_order query) results)))))))"

subsection \<open>\<^verbatim>\<open>MemQLParser\<close>: CREATE, UPDATE, DELETE\<close>

text \<open>
  \<^verbatim>\<open>_execute_create\<close> and \<^verbatim>\<open>_execute_update\<close> parse a comma-separated list of assignments
  with the same loop: the value loses its quotes, the value of \<^verbatim>\<open>importance\<close> goes through
  \<^verbatim>\<open>float()\<close>, the value of \<^verbatim>\<open>tags\<close> is split at white space, any other value stays a
  string. The result is a dictionary: a later assignment to a key replaces the earlier one.
\<close>

datatype param_value = P_str string | P_float real | P_list "string list"

fun split_ws_acc :: "string \<Rightarrow> string \<Rightarrow> string list" where
  "split_ws_acc cur [] = (if cur = [] then [] else [rev cur])"
| "split_ws_acc cur (c # cs) =
     (if is_space c then (if cur = [] then split_ws_acc [] cs else rev cur # split_ws_acc [] cs)
      else split_ws_acc (c # cur) cs)"

definition split_ws :: "string \<Rightarrow> string list" where
  \<comment> \<open>\<^verbatim>\<open>s.split()\<close>\<close>
  "split_ws s = split_ws_acc [] s"

definition parse_assignment :: "env \<Rightarrow> string \<Rightarrow> error + (string \<times> param_value) option" where
  \<comment> \<open>\<open>None\<close>: the part has no \<^verbatim>\<open>=\<close> and is skipped\<close>
  "parse_assignment e param =
     (if contains param ''='' then
        (case split1 param ''='' of
           [k, v] \<Rightarrow>
             (let key = strip k;
                  value0 = strip v;
                  value =
                    (if startswith value0 dquote \<and> endswith value0 dquote then unquote value0
                     else if startswith value0 squote \<and> endswith value0 squote then unquote value0
                     else value0)
              in if key = ''importance'' then
                   (case py_float e value of
                      None \<Rightarrow> Inl ValueError
                    | Some x \<Rightarrow> Inr (Some (key, P_float x)))
                 else if key = ''tags'' then Inr (Some (key, P_list (map strip (split_ws value))))
                 else Inr (Some (key, P_str value)))
         | _ \<Rightarrow> Inl ValueError)
      else Inr None)"

fun parse_assignments ::
  "env \<Rightarrow> (string \<times> param_value) list \<Rightarrow> string list \<Rightarrow> error + (string \<times> param_value) list" where
  "parse_assignments e params [] = Inr params"
| "parse_assignments e params (param # rest) =
     (case parse_assignment e param of
        Inl err \<Rightarrow> Inl err
      | Inr None \<Rightarrow> parse_assignments e params rest
      | Inr (Some (key, value)) \<Rightarrow> parse_assignments e (AList.update key value params) rest)"

fun str_rfind :: "string \<Rightarrow> string \<Rightarrow> int" where
  \<comment> \<open>\<^verbatim>\<open>s.rfind(sub)\<close>\<close>
  "str_rfind [] sub = (if sub = [] then 0 else - 1)"
| "str_rfind (c # cs) sub =
     (let i = str_rfind cs sub
      in if 0 \<le> i then i + 1
         else if startswith (c # cs) sub then 0 else - 1)"

definition set_tags :: "string list \<Rightarrow> memory_record \<Rightarrow> memory_record" where
  \<comment> \<open>\<^verbatim>\<open>MemoryBuilder.set_tags\<close> on a list\<close>
  "set_tags tg r = r\<lparr>tags := tg\<rparr>"

definition set_tags_str :: "string \<Rightarrow> memory_record \<Rightarrow> memory_record" where
  \<comment> \<open>\<^verbatim>\<open>MemoryBuilder.set_tags\<close> on a string\<close>
  "set_tags_str s r = set_tags (map strip (split s '','')) r"

definition build_from_params ::
  "env \<Rightarrow> memcore \<Rightarrow> (string \<times> param_value) list \<Rightarrow> error + memory_record" where
  "build_from_params e c params =
     (let b0 = MemoryBuilder_init e;
          b1 = (case map_of params ''content'' of
                  Some (P_str s) \<Rightarrow> set_content (embedding_provider c) s b0 | _ \<Rightarrow> b0);
          b2 = (case map_of params ''tags'' of Some (P_list l) \<Rightarrow> set_tags l b1 | _ \<Rightarrow> b1);
          b3 = (case map_of params ''importance'' of
                  Some (P_float x) \<Rightarrow> set_importance x b2 | _ \<Rightarrow> b2);
          b4 = (case map_of params ''source'' of Some (P_str s) \<Rightarrow> set_source s b3 | _ \<Rightarrow> b3)
      in build e b4)"

definition execute_create :: "env \<Rightarrow> memcore \<Rightarrow> string \<Rightarrow> error + memory_record list \<times> memcore" where
  "execute_create e c query =
     (let params_str = slice query (str_find query ''('' + 1) (str_rfind query '')'')
      in case parse_assignments e [] (split params_str '','') of
           Inl err \<Rightarrow> Inl err
         | Inr params \<Rightarrow>
             (case build_from_params e c params of
                Inl err \<Rightarrow> Inl err
              | Inr memory \<Rightarrow>
                  (let (memory_id, c') = MemCore_add_memory e c memory False
                   in Inr ((case MemCore_get_memory e c' memory_id of Some m \<Rightarrow> [m] | None \<Rightarrow> []),
                           c'))))"

fun delete_loop :: "env \<Rightarrow> memcore \<Rightarrow> memory_record list \<Rightarrow> memory_record list \<times> memcore" where
  \<comment> \<open>\<^verbatim>\<open>for memory in memories: if self.memcore.delete_memory(memory.id): deleted.append(memory)\<close>\<close>
  "delete_loop e c [] = ([], c)"
| "delete_loop e c (memory # rest) =
     (let (success, c1) = MemCore_delete_memory e c (ident memory);
          (deleted, c2) = delete_loop e c1 rest
      in (if success then memory # deleted else deleted, c2))"

definition delete_select :: "string \<Rightarrow> string" where
  \<comment> \<open>the text of the SELECT that \<^verbatim>\<open>_execute_delete\<close> runs\<close>
  "delete_select query =
     (if upper (strip query) = ''DELETE *'' then ''SELECT LIMIT 0''
      else ''SELECT WHERE '' @ strip (slice_from query (str_find (upper query) ''WHERE'' + 5)))"

definition execute_delete :: "env \<Rightarrow> memcore \<Rightarrow> string \<Rightarrow> error + memory_record list \<times> memcore" where
  "execute_delete e c query =
     (case execute_select e c (delete_select query) of
        Inl err \<Rightarrow> Inl err
      | Inr ms \<Rightarrow> Inr (delete_loop e c ms))"

text \<open>
  The assignments of \<^verbatim>\<open>UPDATE SET\<close> as \<^verbatim>\<open>fields\<close>. The parser gives a string to every key
  but \<^verbatim>\<open>importance\<close> and \<^verbatim>\<open>tags\<close>; the keys \<^verbatim>\<open>metadata\<close>, \<^verbatim>\<open>created_at\<close>, \<^verbatim>\<open>updated_at\<close> and
  \<^verbatim>\<open>embedding\<close> would so put a string where the record type has none, which this typed
  model does not represent: such an assignment is treated like one to an unknown key. No
  statement below depends on the values that an \<^verbatim>\<open>UPDATE\<close> stores.
\<close>

fun to_field :: "string \<times> param_value \<Rightarrow> field_value" where
  "to_field (key, P_str s) =
     (if key = ''content'' then F_content s
      else if key = ''source'' then F_source s
      else if key = ''id'' then F_id s
      else F_other key)"
| "to_field (key, P_float x) = F_importance x"
| "to_field (key, P_list l) = F_tags l"

fun update_loop ::
  "env \<Rightarrow> memcore \<Rightarrow> field_value list \<Rightarrow> memory_record list \<Rightarrow> memory_record list \<times> memcore" where
  "update_loop e c flds [] = ([], c)"
| "update_loop e c flds (memory # rest) =
     (let (success, c1) = MemCore_update_memory e c (ident memory) flds;
          (updated, c2) = update_loop e c1 flds rest
      in (case (if success then MemCore_get_memory e c1 (ident memory) else None) of
            Some updated_mem \<Rightarrow> (updated_mem # updated, c2)
          | None \<Rightarrow> (updated, c2)))"

definition update_clauses :: "string \<Rightarrow> string \<times> string" where
  \<comment> \<open>\<^verbatim>\<open>set_clause\<close> and \<^verbatim>\<open>where_clause\<close> of \<^verbatim>\<open>_execute_update\<close>\<close>
  "update_clauses query =
     (if contains (upper query) ''SET'' then
        (if contains (upper query) ''WHERE'' then
           (strip (slice query (str_find (upper query) ''SET'' + 3) (str_find (upper query) ''WHERE'')),
            strip (slice_from query (str_find (upper query) ''WHERE'' + 5)))
         else (strip (slice_from query (str_find (upper query) ''SET'' + 3)), []))
      else ([], []))"

definition update_select :: "string \<Rightarrow> string" where
  \<comment> \<open>the text of the SELECT that \<^verbatim>\<open>_execute_update\<close> runs\<close>
  "update_select query =
     (if snd (update_clauses query) \<noteq> [] then ''SELECT WHERE '' @ snd (update_clauses query)
      else ''SELECT'')"

definition execute_update :: "env \<Rightarrow> memcore \<Rightarrow> string \<Rightarrow> error + memory_record list \<times> memcore" where
  "execute_update e c query =
     (case parse_assignments e [] (split (fst (update_clauses query)) '','') of
        Inl err \<Rightarrow> Inl err
      | Inr params \<Rightarrow>
          (case execute_select e c (update_select query) of
             Inl err \<Rightarrow> Inl err
           | Inr ms \<Rightarrow> Inr (update_loop e c (map to_field params) ms)))"

definition execute :: "env \<Rightarrow> memcore \<Rightarrow> string \<Rightarrow> error + memory_record list \<times> memcore" where
  "execute e c query0 =
     (let query = strip query0
      in if startswith (upper query) ''CREATE MEM'' then execute_create e c query
         else if startswith (upper query) ''DELETE'' then execute_delete e c query
         else if startswith (upper query) ''UPDATE'' then execute_update e c query
         else (case execute_select e c query of
                 Inl err \<Rightarrow> Inl err
               | Inr ms \<Rightarrow> Inr (ms, c)))"

section \<open>The record codec of \<^verbatim>\<open>mem.py\<close>\<close>

text \<open>
  Bytes are 8-bit words. A Python \<^verbatim>\<open>str\<close> is represented by its UTF-8 encoding, so that
  \<^verbatim>\<open>s.encode('utf-8')\<close> only changes the type of the elements, and \<^verbatim>\<open>bytes.decode('utf-8')\<close>
  is the same change guarded by the well-formedness of the byte sequence. A Python float
  is its IEEE binary64 bit pattern. \<^verbatim>\<open>zlib\<close> is a parameter.
\<close>

type_synonym byte = "8 word"

type_synonym float64 = "64 word"

type_synonym float32 = "32 word"

subsection \<open>\<^verbatim>\<open>struct\<close>: integers\<close>

fun le_bytes :: "nat \<Rightarrow> nat \<Rightarrow> byte list" where
  \<comment> \<open>the \<open>k\<close> low bytes of a number, least significant first\<close>
  "le_bytes 0 n = []"
| "le_bytes (Suc k) n = of_nat (n mod 256) # le_bytes k (n div 256)"

fun le_nat :: "byte list \<Rightarrow> nat" where
  "le_nat [] = 0"
| "le_nat (b # bs) = unat b + 256 * le_nat bs"

definition sentinel :: nat where
  "sentinel = 0xFFFFFFFF"

definition pack_I :: "nat \<Rightarrow> error + byte list" where
  \<comment> \<open>\<^verbatim>\<open>struct.pack('<I', n)\<close>\<close>
  "pack_I n = (if n < 2 ^ 32 then Inr (le_bytes 4 n) else Inl StructError)"

definition unpack_from :: "nat \<Rightarrow> byte list \<Rightarrow> nat \<Rightarrow> error + byte list" where
  \<comment> \<open>the bytes that \<^verbatim>\<open>struct.unpack_from\<close> reads for a format of the given size\<close>
  "unpack_from n data offset =
     (if offset + n \<le> length data then Inr (take n (drop offset data)) else Inl StructError)"

definition and_then :: "error + 'a \<Rightarrow> ('a \<Rightarrow> error + 'b) \<Rightarrow> error + 'b" where
  \<comment> \<open>sequencing: the first exception ends the computation\<close>
  "and_then r f = (case r of Inl err \<Rightarrow> Inl err | Inr x \<Rightarrow> f x)"

definition unpack_I :: "byte list \<Rightarrow> nat \<Rightarrow> error + nat" where
  \<comment> \<open>\<^verbatim>\<open>struct.unpack_from('<I', data, offset)\<close>\<close>
  "unpack_I data offset = and_then (unpack_from 4 data offset) (\<lambda>bs. Inr (le_nat bs))"

subsection \<open>\<^verbatim>\<open>struct\<close>: floats and booleans\<close>

text \<open>
  \<^verbatim>\<open>struct.pack('<f', x)\<close> converts the double to binary32, rounding to nearest with ties to
  even, and raises \<^verbatim>\<open>OverflowError\<close> when a finite double rounds to infinity;
  \<^verbatim>\<open>struct.unpack('<f', ...)\<close> widens exactly. \<^verbatim>\<open>'<d'\<close> copies the eight bytes.
\<close>

definition rne :: "nat \<Rightarrow> nat \<Rightarrow> nat" where
  \<comment> \<open>\<open>n / 2^k\<close> rounded to the nearest integer, ties to even\<close>
  "rne n k =
     (let q = n div 2 ^ k; r = n mod 2 ^ k
      in if 2 ^ k < 2 * r \<or> (2 * r = 2 ^ k \<and> odd q) then q + 1 else q)"

definition f64_to_f32 :: "float64 \<Rightarrow> error + float32" where
  "f64_to_f32 x =
     (let n = unat x; s = n div 2 ^ 63; e = (n div 2 ^ 52) mod 2 ^ 11; m = n mod 2 ^ 52
      in if e = 2047 then
           (if m = 0 then Inr (of_nat (s * 2 ^ 31 + 255 * 2 ^ 23))
            else Inr (of_nat (s * 2 ^ 31 + 255 * 2 ^ 23 + 2 ^ 22 + m div 2 ^ 29)))
         else if 897 \<le> e then
           (let r = (e - 896) * 2 ^ 23 + rne m 29
            in if 255 * 2 ^ 23 \<le> r then Inl OverflowError else Inr (of_nat (s * 2 ^ 31 + r)))
         else if e = 0 then Inr (of_nat (s * 2 ^ 31))
         else Inr (of_nat (s * 2 ^ 31 + rne (2 ^ 52 + m) (926 - e))))"

definition top_bit :: "nat \<Rightarrow> nat" where
  \<comment> \<open>the position of the highest set bit of a number below \<open>2^23\<close>\<close>
  "top_bit m = length (takeWhile (\<lambda>p. 2 ^ Suc p \<le> m) [0..<23])"

definition f32_to_f64 :: "float32 \<Rightarrow> float64" where
  "f32_to_f64 v =
     (let n = unat v; s = n div 2 ^ 31; e = (n div 2 ^ 23) mod 2 ^ 8; m = n mod 2 ^ 23
      in if e = 255 then of_nat (s * 2 ^ 63 + 2047 * 2 ^ 52 + m * 2 ^ 29)
         else if e = 0 then
           (if m = 0 then of_nat (s * 2 ^ 63)
            else of_nat (s * 2 ^ 63 + (top_bit m + 874) * 2 ^ 52
                          + (m - 2 ^ top_bit m) * 2 ^ (52 - top_bit m)))
         else of_nat (s * 2 ^ 63 + (e + 896) * 2 ^ 52 + m * 2 ^ 29))"

definition pack_f :: "float64 \<Rightarrow> error + byte list" where
  \<comment> \<open>\<^verbatim>\<open>struct.pack('<f', x)\<close>\<close>
  "pack_f x = and_then (f64_to_f32 x) (\<lambda>v. Inr (le_bytes 4 (unat v)))"

definition unpack_f :: "byte list \<Rightarrow> nat \<Rightarrow> error + float64" where
  \<comment> \<open>\<^verbatim>\<open>struct.unpack_from('<f', data, offset)\<close>\<close>
  "unpack_f data offset =
     and_then (unpack_from 4 data offset) (\<lambda>bs. Inr (f32_to_f64 (of_nat (le_nat bs))))"

definition pack_d :: "float64 \<Rightarrow> byte list" where
  \<comment> \<open>\<^verbatim>\<open>struct.pack('<d', x)\<close>\<close>
  "pack_d x = le_bytes 8 (unat x)"

definition unpack_d :: "byte list \<Rightarrow> nat \<Rightarrow> error + float64" where
  "unpack_d data offset = and_then (unpack_from 8 data offset) (\<lambda>bs. Inr (of_nat (le_nat bs)))"

definition pack_bool :: "bool \<Rightarrow> byte list" where
  \<comment> \<open>\<^verbatim>\<open>struct.pack('<?', b)\<close>\<close>
  "pack_bool b = [if b then 1 else 0]"

definition unpack_bool :: "byte list \<Rightarrow> nat \<Rightarrow> error + bool" where
  "unpack_bool data offset =
     and_then (unpack_from 1 data offset) (\<lambda>bs. Inr (bs \<noteq> [0]))"

definition or_zero :: "float64 \<Rightarrow> float64" where
  \<comment> \<open>\<^verbatim>\<open>x or 0.0\<close>: both zeros are falsy\<close>
  "or_zero x = (if x = 0 \<or> x = 0x8000000000000000 then 0 else x)"

subsection \<open>UTF-8\<close>

definition cont :: "byte \<Rightarrow> bool" where
  \<comment> \<open>a continuation byte\<close>
  "cont b = (0x80 \<le> b \<and> b \<le> 0xBF)"

fun valid_utf8 :: "byte list \<Rightarrow> bool" where
  \<comment> \<open>the well-formed byte sequences of UTF-8: no overlong forms, no surrogates\<close>
  "valid_utf8 [] = True"
| "valid_utf8 (b # bs) =
     (if b \<le> 0x7F then valid_utf8 bs
      else if 0xC2 \<le> b \<and> b \<le> 0xDF then
        (case bs of c1 # r \<Rightarrow> cont c1 \<and> valid_utf8 r | _ \<Rightarrow> False)
      else if 0xE0 \<le> b \<and> b \<le> 0xEF then
        (case bs of
           c1 # c2 # r \<Rightarrow>
             (if b = 0xE0 then 0xA0 \<le> c1 \<and> c1 \<le> 0xBF
              else if b = 0xED then 0x80 \<le> c1 \<and> c1 \<le> 0x9F
              else cont c1) \<and> cont c2 \<and> valid_utf8 r
         | _ \<Rightarrow> False)
      else if 0xF0 \<le> b \<and> b \<le> 0xF4 then
        (case bs of
           c1 # c2 # c3 # r \<Rightarrow>
             (if b = 0xF0 then 0x90 \<le> c1 \<and> c1 \<le> 0xBF
              else if b = 0xF4 then 0x80 \<le> c1 \<and> c1 \<le> 0x8F
              else cont c1) \<and> cont c2 \<and> cont c3 \<and> valid_utf8 r
         | _ \<Rightarrow> False)
      else False)"

definition utf8_encode :: "string \<Rightarrow> byte list" where
  \<comment> \<open>\<^verbatim>\<open>s.encode('utf-8')\<close>\<close>
  "utf8_encode s = map (\<lambda>c. of_nat (of_char c)) s"

definition utf8_decode :: "byte list \<Rightarrow> error + string" where
  \<comment> \<open>\<^verbatim>\<open>bs.decode('utf-8')\<close>\<close>
  "utf8_decode bs =
     (if valid_utf8 bs then Inr (map (\<lambda>b. char_of (unat b)) bs) else Inl UnicodeError)"

subsection \<open>Field codecs\<close>

definition encode_str :: "string option \<Rightarrow> error + byte list" where
  "encode_str s =
     (case s of
        None \<Rightarrow> pack_I sentinel
      | Some t \<Rightarrow> and_then (pack_I (length (utf8_encode t))) (\<lambda>h. Inr (h @ utf8_encode t)))"

definition decode_str :: "byte list \<Rightarrow> nat \<Rightarrow> error + string option \<times> nat" where
  \<comment> \<open>the slice \<^verbatim>\<open>data[offset:offset+length]\<close> is cut at the end of the data\<close>
  "decode_str data offset0 =
     and_then (unpack_I data offset0) (\<lambda>len.
       let offset = offset0 + 4
       in if len = sentinel then Inr (None, offset)
          else and_then (utf8_decode (take len (drop offset data))) (\<lambda>s.
                 Inr (Some s, offset + len)))"

fun encode_all :: "('a \<Rightarrow> error + byte list) \<Rightarrow> 'a list \<Rightarrow> error + byte list" where
  \<comment> \<open>the loops \<^verbatim>\<open>for item in ...: out += encode(item)\<close>\<close>
  "encode_all enc [] = Inr []"
| "encode_all enc (x # xs) =
     and_then (enc x) (\<lambda>b. and_then (encode_all enc xs) (\<lambda>bs. Inr (b @ bs)))"

definition encode_embedding :: "float64 list option \<Rightarrow> error + byte list" where
  "encode_embedding embedding0 =
     (case embedding0 of
        None \<Rightarrow> pack_I sentinel
      | Some fs \<Rightarrow>
          and_then (pack_I (length fs)) (\<lambda>h.
            and_then (encode_all pack_f fs) (\<lambda>body. Inr (h @ body))))"

fun decode_floats :: "nat \<Rightarrow> byte list \<Rightarrow> nat \<Rightarrow> error + float64 list \<times> nat" where
  \<comment> \<open>\<^verbatim>\<open>for _ in range(length)\<close> of \<^verbatim>\<open>decode_embedding\<close>\<close>
  "decode_floats 0 data offset = Inr ([], offset)"
| "decode_floats (Suc n) data offset =
     and_then (unpack_f data offset) (\<lambda>val.
       and_then (decode_floats n data (offset + 4)) (\<lambda>(vals, offset').
         Inr (val # vals, offset')))"

definition decode_embedding :: "byte list \<Rightarrow> nat \<Rightarrow> error + float64 list option \<times> nat" where
  "decode_embedding data offset0 =
     and_then (unpack_I data offset0) (\<lambda>len.
       if len = sentinel then Inr (None, offset0 + 4)
       else and_then (decode_floats len data (offset0 + 4)) (\<lambda>(vals, offset).
              Inr (Some vals, offset)))"

definition encode_list_str :: "string option list option \<Rightarrow> error + byte list" where
  "encode_list_str lst0 =
     (case lst0 of
        None \<Rightarrow> pack_I sentinel
      | Some lst \<Rightarrow>
          and_then (pack_I (length lst)) (\<lambda>h.
            and_then (encode_all encode_str lst) (\<lambda>body. Inr (h @ body))))"

fun decode_strs :: "nat \<Rightarrow> byte list \<Rightarrow> nat \<Rightarrow> error + string option list \<times> nat" where
  "decode_strs 0 data offset = Inr ([], offset)"
| "decode_strs (Suc n) data offset =
     and_then (decode_str data offset) (\<lambda>(s, offset1).
       and_then (decode_strs n data offset1) (\<lambda>(lst, offset2).
         Inr (s # lst, offset2)))"

definition decode_list_str :: "byte list \<Rightarrow> nat \<Rightarrow> error + string option list option \<times> nat" where
  "decode_list_str data offset0 =
     and_then (unpack_I data offset0) (\<lambda>len.
       if len = sentinel then Inr (None, offset0 + 4)
       else and_then (decode_strs len data (offset0 + 4)) (\<lambda>(lst, offset).
              Inr (Some lst, offset)))"

text \<open>
  A metadata dictionary, with keys and values as \<^verbatim>\<open>decode_dict\<close> can produce them: strings
  or \<^verbatim>\<open>None\<close>. \<^verbatim>\<open>encode_dict\<close> writes \<^verbatim>\<open>str(v)\<close> for a value \<open>v\<close>.
\<close>

type_synonym py_dict = "(string option \<times> string option) list"

definition py_str :: "string option \<Rightarrow> string" where
  \<comment> \<open>\<^verbatim>\<open>str(v)\<close> for a string or \<^verbatim>\<open>None\<close>\<close>
  "py_str v = (case v of Some s \<Rightarrow> s | None \<Rightarrow> ''None'')"

definition encode_item :: "string option \<times> string option \<Rightarrow> error + byte list" where
  "encode_item = (\<lambda>(k, v).
     and_then (encode_str k) (\<lambda>bk. and_then (encode_str (Some (py_str v))) (\<lambda>bv. Inr (bk @ bv))))"

definition encode_dict :: "py_dict option \<Rightarrow> error + byte list" where
  "encode_dict d0 =
     (case d0 of
        None \<Rightarrow> pack_I sentinel
      | Some d \<Rightarrow>
          and_then (pack_I (length d)) (\<lambda>h.
            and_then (encode_all encode_item d) (\<lambda>body. Inr (h @ body))))"

fun decode_items :: "nat \<Rightarrow> byte list \<Rightarrow> nat \<Rightarrow> py_dict \<Rightarrow> error + py_dict \<times> nat" where
  \<comment> \<open>the loop of \<^verbatim>\<open>decode_dict\<close>, with \<^verbatim>\<open>d[k] = v\<close>\<close>
  "decode_items 0 data offset d = Inr (d, offset)"
| "decode_items (Suc n) data offset d =
     and_then (decode_str data offset) (\<lambda>(k, offset1).
       and_then (decode_str data offset1) (\<lambda>(v, offset2).
         decode_items n data offset2 (AList.update k v d)))"

definition decode_dict :: "byte list \<Rightarrow> nat \<Rightarrow> error + py_dict option \<times> nat" where
  "decode_dict data offset0 =
     and_then (unpack_I data offset0) (\<lambda>len.
       if len = sentinel then Inr (None, offset0 + 4)
       else and_then (decode_items len data (offset0 + 4) []) (\<lambda>(d, offset).
              Inr (Some d, offset)))"

subsection \<open>\<^verbatim>\<open>serialize_mem\<close> and \<^verbatim>\<open>deserialize_mem\<close>\<close>

record mem =
  m_id :: "string option"
  m_content :: "string option"
  m_tags :: "string option list option"
  m_metadata :: "py_dict option"
  m_importance :: float64
  m_created_at :: float64
  m_updated_at :: float64
  m_source :: "string option"
  m_embedding :: "float64 list option"
  m_encrypted :: bool

record zlib =
  compress :: "byte list \<Rightarrow> byte list"
  decompress :: "byte list \<Rightarrow> byte list option"   \<comment> \<open>\<open>None\<close>: \<^verbatim>\<open>zlib.error\<close>\<close>

definition raw_data :: "mem \<Rightarrow> error + byte list" where
  \<comment> \<open>\<^verbatim>\<open>b''.join(parts)\<close>\<close>
  "raw_data m =
     and_then (encode_str (m_id m)) (\<lambda>p0.
     and_then (encode_str (m_content m)) (\<lambda>p1.
     and_then (encode_list_str (m_tags m)) (\<lambda>p2.
     and_then (encode_dict (m_metadata m)) (\<lambda>p3.
     and_then (pack_f (m_importance m)) (\<lambda>p4.
     and_then (encode_str (m_source m)) (\<lambda>p7.
     and_then (encode_embedding (m_embedding m)) (\<lambda>p8.
       Inr (p0 @ p1 @ p2 @ p3 @ p4 @ pack_d (or_zero (m_created_at m))
              @ pack_d (or_zero (m_updated_at m)) @ p7 @ p8 @ pack_bool (m_encrypted m)))))))))"


definition decode_raw :: "byte list \<Rightarrow> error + mem" where
  \<comment> \<open>the part of \<^verbatim>\<open>deserialize_mem\<close> after \<^verbatim>\<open>zlib.decompress\<close>\<close>
  "decode_raw raw =
     and_then (decode_str raw 0) (\<lambda>(id0, idx1).
     and_then (decode_str raw idx1) (\<lambda>(content0, idx2).
     and_then (decode_list_str raw idx2) (\<lambda>(tags0, idx3).
     and_then (decode_dict raw idx3) (\<lambda>(metadata0, idx4).
     and_then (unpack_f raw idx4) (\<lambda>importance0.
     and_then (unpack_d raw (idx4 + 4)) (\<lambda>created_at0.
     and_then (unpack_d raw (idx4 + 12)) (\<lambda>updated_at0.
     and_then (decode_str raw (idx4 + 20)) (\<lambda>(source0, idx8).
     and_then (decode_embedding raw idx8) (\<lambda>(embedding0, idx9).
     and_then (unpack_bool raw idx9) (\<lambda>encrypted0.
       Inr \<lparr>m_id = id0, m_content = content0, m_tags = tags0, m_metadata = metadata0,
            m_importance = importance0, m_created_at = created_at0,
            m_updated_at = updated_at0, m_source = source0, m_embedding = embedding0,
            m_encrypted = encrypted0\<rparr>))))))))))"

definition deserialize_mem :: "zlib \<Rightarrow> byte list \<Rightarrow> nat \<Rightarrow> error + mem \<times> nat" where
  "deserialize_mem z data offset0 =
     and_then (unpack_I data offset0) (\<lambda>compressed_len.
       let offset = offset0 + 4;
           compressed_data = take compressed_len (drop offset data)
       in case decompress z compressed_data of
            None \<Rightarrow> Inl ZlibError
          | Some raw \<Rightarrow> and_then (decode_raw raw) (\<lambda>m. Inr (m, offset + compressed_len)))"

section \<open>Concrete inputs\<close>

definition float_table :: "string \<Rightarrow> real option" where
  \<comment> \<open>\<^verbatim>\<open>float()\<close> on the literals of the examples\<close>
  "float_table s =
     (if s = ''0.7'' then Some (7/10) else if s = ''0.9'' then Some (9/10)
      else if s = ''0'' then Some 0 else None)"

definition int_table :: "string \<Rightarrow> int option" where
  \<comment> \<open>\<^verbatim>\<open>int()\<close> on the literals of the examples\<close>
  "int_table s = (if s = ''0'' then Some 0 else if s = ''1'' then Some 1 else None)"

definition env0 :: env where
  "env0 = \<lparr>uuid4 = ''a'', time_time = 100, strftime = ''20240101120000'',
            py_float = float_table, py_int = int_table\<rparr>"

definition env1 :: env where
  "env1 = \<lparr>uuid4 = ''b'', time_time = 101, strftime = ''20240101120001'',
            py_float = float_table, py_int = int_table\<rparr>"

definition core_empty :: memcore where
  "core_empty =
     \<lparr>encryption_key = None, embedding_provider = None,
      table = \<lparr>memories = [], mem_files = Map.empty\<rparr>,
      history = Map.empty, vector_search = []\<rparr>"

definition record_a :: memory_record where
  \<comment> \<open>\<^verbatim>\<open>MemoryBuilder().set_content("hello world").set_importance(0.6).build()\<close>\<close>
  "record_a =
     (case build env0 (set_importance (3/5) (set_content None ''hello world'' (MemoryBuilder_init env0)))
      of Inr r \<Rightarrow> r | Inl err \<Rightarrow> MemoryBuilder_init env0)"

definition core_a :: memcore where
  "core_a = snd (MemCore_add_memory env0 core_empty record_a False)"

definition record_b :: memory_record where
  "record_b =
     \<lparr>ident = ''b'', content = ''second'', tags = [''t''], metadata = [], importance = 4/5,
      created_at = 101, updated_at = 101, source = ''test'', embedding = []\<rparr>"

definition core_ab :: memcore where
  "core_ab = snd (MemCore_add_memory env1 core_a record_b False)"

definition table_corrupt :: mem_table where
  \<comment> \<open>the table of \<open>core_ab\<close> after the file \<^verbatim>\<open>a.mem\<close> has been damaged\<close>
  "table_corrupt = (table core_ab)\<lparr>mem_files := (mem_files (table core_ab))(''a'' \<mapsto> Unreadable)\<rparr>"

lemmas concrete_defs =
  env0_def env1_def core_empty_def record_a_def core_a_def record_b_def core_ab_def
  table_corrupt_def build_def set_importance_def set_content_def MemoryBuilder_init_def
  MemoryRecord_init_def MemCore_add_memory_def MemTable_add_memory_def add_history_def
  history_file_def add_vector_def to_dict_def memory_record.extend_def Let_def

definition toy_fernet :: "string \<Rightarrow> fernet" where
  \<comment> \<open>a stand-in cipher for evaluation: a token is the key name followed by the plain text\<close>
  "toy_fernet k =
     \<lparr>fernet_encrypt = (\<lambda>s. k @ s),
      fernet_decrypt = (\<lambda>s. if take (length k) s = k then Some (drop (length k) s) else None)\<rparr>"


definition keep_all :: query_func where
  "keep_all = pure_pred (\<lambda>d. True)"





definition zlib_identity :: zlib where
  \<comment> \<open>a stand-in for \<^verbatim>\<open>zlib\<close> in evaluations: it stores the data as they are\<close>
  "zlib_identity = \<lparr>compress = (\<lambda>x. x), decompress = Some\<rparr>"

definition mem_a :: mem where
  \<comment> \<open>importance \<open>0.5\<close>, timestamps \<open>100.0\<close>, tags present but empty, metadata absent,
      embedding \<open>[1.0]\<close>\<close>
  "mem_a =
     \<lparr>m_id = Some ''a'', m_content = Some ''hi'', m_tags = Some [], m_metadata = None,
      m_importance = 0x3FE0000000000000, m_created_at = 0x4059000000000000,
      m_updated_at = 0x4059000000000000, m_source = Some [], m_embedding = Some [0x3FF0000000000000],
      m_encrypted = False\<rparr>"



definition overlong_a :: "byte list" where
  \<comment> \<open>the serialization of \<open>mem_a\<close> with the outer length prefix raised by \<open>5\<close>\<close>
  "overlong_a =
     (case raw_data mem_a of
        Inr raw \<Rightarrow> le_bytes 4 (length raw + 5) @ raw
      | Inl err \<Rightarrow> [])"

section \<open>Notions used in the statements\<close>

fun new_importance :: "field_value list \<Rightarrow> real \<Rightarrow> real" where
  \<comment> \<open>the value of the last \<^verbatim>\<open>importance\<close> entry of \<^verbatim>\<open>fields\<close>, the old value when there is none\<close>
  "new_importance [] old = old"
| "new_importance (F_importance x # fs) old = new_importance fs x"
| "new_importance (f # fs) old = new_importance fs old"


fun str_leaves :: "pyval \<Rightarrow> string list" where
  \<comment> \<open>the strings that \<^verbatim>\<open>_decrypt_data\<close> tries to decrypt\<close>
  "str_leaves (Str s) = [s]"
| "str_leaves (List vs) = concat (map str_leaves vs)"
| "str_leaves (Dict kvs) = concat (map (\<lambda>(k, v). str_leaves v) kvs)"
| "str_leaves (Other s) = []"



definition no_known_field :: "string \<Rightarrow> bool" where
  \<comment> \<open>the clause holds none of the field names that \<^verbatim>\<open>filter_func\<close> looks for\<close>
  "no_known_field where_clause =
     (\<not> contains where_clause ''tags'' \<and> \<not> contains where_clause ''encrypted'' \<and>
      \<not> contains where_clause ''content'' \<and> \<not> contains where_clause ''id'' \<and>
      \<not> contains where_clause ''importance'' \<and> \<not> contains where_clause ''created_at'' \<and>
      \<not> contains where_clause ''updated_at'' \<and> \<not> contains where_clause ''source'')"


definition str_ok :: "string option \<Rightarrow> bool" where
  \<comment> \<open>a \<^verbatim>\<open>str\<close> (or \<^verbatim>\<open>None\<close>) of this codec: well-formed, and not as long as the sentinel\<close>
  "str_ok s =
     (case s of None \<Rightarrow> True | Some t \<Rightarrow> valid_utf8 (utf8_encode t) \<and> length t \<noteq> sentinel)"

definition codec_wf :: "mem \<Rightarrow> bool" where
  \<comment> \<open>the strings are strings of this codec, no count equals the sentinel, and the metadata
      are a dictionary (no key twice)\<close>
  "codec_wf m =
     (str_ok (m_id m) \<and> str_ok (m_content m) \<and> str_ok (m_source m) \<and>
      (case m_tags m of
         None \<Rightarrow> True
       | Some lst \<Rightarrow> length lst \<noteq> sentinel \<and> list_all str_ok lst) \<and>
      (case m_metadata m of
         None \<Rightarrow> True
       | Some d \<Rightarrow>
           length d \<noteq> sentinel \<and> distinct (map fst d) \<and>
           list_all (\<lambda>(k, v). str_ok k \<and> str_ok (Some (py_str v))) d) \<and>
      (case m_embedding m of None \<Rightarrow> True | Some fs \<Rightarrow> length fs \<noteq> sentinel))"

definition widen32 :: "float64 \<Rightarrow> float64" where
  \<comment> \<open>the double rounded to binary32 and widened again\<close>
  "widen32 x = (case f64_to_f32 x of Inl err \<Rightarrow> x | Inr v \<Rightarrow> f32_to_f64 v)"

definition stored_item :: "string option \<times> string option \<Rightarrow> string option \<times> string option" where
  "stored_item = (\<lambda>(k, v). (k, Some (py_str v)))"

definition stored :: "mem \<Rightarrow> mem" where
  \<comment> \<open>what the encoding keeps of a record\<close>
  "stored m =
     m\<lparr>m_metadata := map_option (map stored_item) (m_metadata m),
       m_importance := widen32 (m_importance m),
       m_created_at := or_zero (m_created_at m),
       m_updated_at := or_zero (m_updated_at m),
       m_embedding := map_option (map widen32) (m_embedding m)\<rparr>"

definition f32_exact :: "float64 \<Rightarrow> bool" where
  \<comment> \<open>the double is exactly representable in binary32\<close>
  "f32_exact x = (case f64_to_f32 x of Inl err \<Rightarrow> False | Inr v \<Rightarrow> f32_to_f64 v = x)"

definition codec_exact :: "mem \<Rightarrow> bool" where
  \<comment> \<open>importance and embedding fit binary32, no timestamp is a negative zero, and the
      metadata values are strings\<close>
  "codec_exact m =
     (f32_exact (m_importance m) \<and>
      (case m_embedding m of None \<Rightarrow> True | Some fs \<Rightarrow> list_all f32_exact fs) \<and>
      or_zero (m_created_at m) = m_created_at m \<and>
      or_zero (m_updated_at m) = m_updated_at m \<and>
      (case m_metadata m of None \<Rightarrow> True | Some d \<Rightarrow> list_all (\<lambda>(k, v). v \<noteq> None) d))"


section \<open>Properties\<close>

subsection \<open>Importance\<close>

lemma importance_fold_setattr:
  "importance (fold setattr flds m) = new_importance flds (importance m)"
proof (induction flds arbitrary: m)
  case Nil
  show ?case by simp
next
  case (Cons f flds)
  show ?case by (cases f) (simp_all add: Cons.IH)
qed



lemma importance_decrypt_fields [simp]: "importance (decrypt_fields k d) = importance d"
  by (simp add: decrypt_fields_def)

lemma importance_encrypt_fields [simp]: "importance (encrypt_fields k m) = importance m"
  by (simp add: encrypt_fields_def)

lemma importance_from_dict [simp]: "importance (from_dict e d) = importance d"
  by (simp add: from_dict_def MemoryRecord_init_def Let_def)

lemma new_importance_update_dict [simp]: "new_importance (update_dict m) old = importance m"
  by (simp add: update_dict_def)


lemma importance_updated_record [simp]:
  "importance (updated_record e c d flds) = new_importance flds (importance d)"
  by (simp add: updated_record_def Let_def importance_fold_setattr split: option.splits)





subsection \<open>Scan\<close>

lemma query_loop_pure:
  "query_loop (pure_pred p) fs entries = Inr (filter p (map (load_or_index fs) entries))"
  by (induction entries) (simp_all add: pure_pred_def)

text \<open>
  C6 (amended). \<^verbatim>\<open>MemTable.query\<close> visits every entry of the index in order and never aborts
  because of a file: for an entry whose file unpickles, the predicate is applied to the
  content of the file; for an entry whose file is unreadable or missing, the record is not
  skipped, the predicate is applied to the entry of the in-memory index, which is returned
  when it matches.
\<close>

theorem query_falls_back_to_index:
  "MemTable_query t (pure_pred p) = Inr (filter p (map (load_or_index (mem_files t)) (memories t))) \<and>
   (mem_files t i = Some (Pickled d) \<longrightarrow> load_or_index (mem_files t) (i, m) = d) \<and>
   (mem_files t i = Some Unreadable \<longrightarrow> load_or_index (mem_files t) (i, m) = m) \<and>
   (mem_files t i = None \<longrightarrow> load_or_index (mem_files t) (i, m) = m)"
  by (simp add: MemTable_query_def query_loop_pure load_or_index_def)

theorem query_falls_back_to_index_witness:
  "mem_files table_corrupt ''a'' = Some Unreadable \<and>
   mem_files table_corrupt ''b'' = Some (Pickled (to_dict record_b False)) \<and>
   load_or_index (mem_files table_corrupt) (''a'', to_dict record_a False) = to_dict record_a False \<and>
   load_or_index (mem_files table_corrupt) (''b'', to_dict record_b False) = to_dict record_b False \<and>
   MemTable_query table_corrupt (pure_pred (\<lambda>d. importance d < 7/10)) = Inr [to_dict record_a False]"
proof -
  have a: "mem_files table_corrupt ''a'' = Some Unreadable"
    by (simp add: table_corrupt_def)
  have b: "mem_files table_corrupt ''b'' = Some (Pickled (to_dict record_b False))"
    by (simp add: concrete_defs)
  have ms: "memories table_corrupt = [(''a'', to_dict record_a False), (''b'', to_dict record_b False)]"
    by (simp add: concrete_defs)
  have ia: "importance (to_dict record_a False) = 3/5" and ib: "importance (to_dict record_b False) = 4/5"
    by (simp_all add: concrete_defs)
  from query_falls_back_to_index
    [of table_corrupt "\<lambda>d. importance d < 7/10" "''a''" "to_dict record_a False" "to_dict record_a False"]
    query_falls_back_to_index
    [of table_corrupt "\<lambda>d. importance d < 7/10" "''b''" "to_dict record_b False" "to_dict record_b False"]
  show ?thesis
    using a b by (simp add: ms ia ib)
qed

text \<open>
  The claim as stated fails: with the file of record \<open>a\<close> unreadable, a scan that keeps
  everything returns the index entry of \<open>a\<close> followed by \<open>b\<close>, not \<open>b\<close> alone.
\<close>

theorem query_skip_counterexample:
  "mem_files table_corrupt ''a'' = Some Unreadable \<and>
   MemTable_query table_corrupt keep_all = Inr [to_dict record_a False, to_dict record_b False] \<and>
   MemTable_query table_corrupt keep_all \<noteq> Inr [to_dict record_b False]"
  by (simp add: MemTable_query_def keep_all_def pure_pred_def load_or_index_def concrete_defs)

subsection \<open>Update\<close>










subsection \<open>Decryption\<close>

lemma decrypt_data_fails_unchanged:
  "list_all (\<lambda>s. fernet_decrypt f s = None) (str_leaves v) \<Longrightarrow> decrypt_data (Some f) v = v"
proof (induction v)
  case (Str s)
  then show ?case by (simp add: decrypt_str_def)
next
  case (List vs)
  then have "map (decrypt_data (Some f)) vs = map (\<lambda>v. v) vs"
    by (intro map_cong refl) (simp add: list_all_iff)
  then show ?case by simp
next
  case (Dict kvs)
  have "map (\<lambda>(k, v). (k, decrypt_data (Some f) v)) kvs = map (\<lambda>kv. kv) kvs"
  proof (intro map_cong refl)
    fix kv assume kv: "kv \<in> set kvs"
    obtain k v where [simp]: "kv = (k, v)" by (cases kv)
    have "list_all (\<lambda>s. fernet_decrypt f s = None) (str_leaves v)"
      using Dict.prems kv by (fastforce simp: list_all_iff)
    with Dict.IH [of kv v] kv show "(case kv of (k, v) \<Rightarrow> (k, decrypt_data (Some f) v)) = kv"
      by simp
  qed
  then show ?case by simp
next
  case (Other s)
  show ?case by simp
qed

text \<open>
  C9. \<^verbatim>\<open>_decrypt_data\<close> is a total function from values to values: it has no failure
  result. When decryption of every string in the value fails (wrong key, corrupted or
  never encrypted text), or when no key is configured, the value comes back unchanged; so
  the result alone does not tell a key mismatch from a value that was never encrypted.
\<close>

theorem decrypt_failure_returns_original:
  "(list_all (\<lambda>s. fernet_decrypt f s = None) (str_leaves v) \<longrightarrow> decrypt_data (Some f) v = v) \<and>
   decrypt_data None v = v \<and>
   (fernet_decrypt f s = None \<longrightarrow> decrypt_str (Some f) s = s)"
  by (simp add: decrypt_data_fails_unchanged decrypt_str_def)

theorem decrypt_failure_returns_original_witness:
  "list_all (\<lambda>s. fernet_decrypt (toy_fernet ''k2:'') s = None)
     (str_leaves (encrypt_data (Some (toy_fernet ''k1:'')) (Dict [(''note'', List [Str ''x'', Other ''1''])]))) \<and>
   decrypt_data (Some (toy_fernet ''k2:''))
     (encrypt_data (Some (toy_fernet ''k1:'')) (Dict [(''note'', List [Str ''x'', Other ''1''])])) =
   Dict [(''note'', List [Str ''k1:x'', Str ''k1:1''])] \<and>
   fernet_decrypt (toy_fernet ''k2:'') ''k1:x'' = None \<and>
   decrypt_str (Some (toy_fernet ''k2:'')) ''k1:x'' = ''k1:x''"
proof -
  have enc: "encrypt_data (Some (toy_fernet ''k1:'')) (Dict [(''note'', List [Str ''x'', Other ''1''])]) =
      Dict [(''note'', List [Str ''k1:x'', Str ''k1:1''])]"
    by (simp add: toy_fernet_def encrypt_str_def)
  have fails: "list_all (\<lambda>s. fernet_decrypt (toy_fernet ''k2:'') s = None)
      (str_leaves (Dict [(''note'', List [Str ''k1:x'', Str ''k1:1''])]))"
    by (simp add: toy_fernet_def)
  have one: "fernet_decrypt (toy_fernet ''k2:'') ''k1:x'' = None"
    by (simp add: toy_fernet_def)
  from decrypt_failure_returns_original
    [of "toy_fernet ''k2:''" "Dict [(''note'', List [Str ''k1:x'', Str ''k1:1''])]" "''k1:x''"]
  show ?thesis unfolding enc using fails one by simp
qed

subsection \<open>Vector search\<close>

















subsection \<open>History\<close>




















subsection \<open>MemQL\<close>

lemma where_filter_unknown:
  "no_known_field where_clause \<Longrightarrow> where_filter e where_clause memory = Inr (Some memory)"
  by (simp add: where_filter_def no_known_field_def keep_def)

lemma select_unknown_field:
  assumes "startswith (upper q) ''SELECT''" and "select_limit e q = Inr l"
    and "select_vector c q = Inr None" and "select_score e q = Inr s"
    and "no_known_field (select_where q)"
  shows "execute_select e c q =
     Inr (apply_limit l (map (to_record e c)
            (sort_results (select_order q)
               (map (load_or_index (mem_files (table c))) (memories (table c))))))"
proof -
  have f: "filter_func e None s (select_where q) = pure_pred (\<lambda>d. True)"
    using assms(5) by (auto simp: filter_func_def where_filter_unknown pure_pred_def)
  show ?thesis
    using assms(1-4) by (simp add: execute_select_def f MemTable_query_def query_loop_pure)
qed









text \<open>
  C5 (amended). The sources define no \<^verbatim>\<open>InvalidQuery\<close> error. A \<^verbatim>\<open>WHERE\<close> clause that names none
  of the fields the filter looks for is not rejected: the filter keeps every record
  (\<^verbatim>\<open># Default - pass through the clause\<close>), so the query returns all the records of the
  table, ordered and limited as the rest of the query says.
\<close>

theorem unknown_field_matches_all:
  "(no_known_field where_clause \<longrightarrow>
      filter_func e None s where_clause memory = Inr (Some memory)) \<and>
   (startswith (upper q) ''SELECT'' \<and> select_limit e q = Inr l \<and>
    select_vector c q = Inr None \<and> select_score e q = Inr s \<and>
    no_known_field (select_where q) \<longrightarrow>
      execute_select e c q =
        Inr (apply_limit l (map (to_record e c)
               (sort_results (select_order q)
                  (map (load_or_index (mem_files (table c))) (memories (table c)))))))"
  using where_filter_unknown [of where_clause e memory] select_unknown_field [of q e l c s]
  by (simp add: filter_func_def)

lemma upper_colour: "upper ''SELECT WHERE colour = 1'' = ''SELECT WHERE COLOUR = 1''"
  by (simp add: upper_def upper_char_def)

lemma memories_core_ab:
  "memories (table core_ab) = [(''a'', to_dict record_a False), (''b'', to_dict record_b False)]"
  by (simp add: concrete_defs)

lemma mem_files_core_ab:
  "mem_files (table core_ab) ''a'' = Some (Pickled (to_dict record_a False))"
  "mem_files (table core_ab) ''b'' = Some (Pickled (to_dict record_b False))"
  by (simp_all add: concrete_defs)

lemma to_record_core_ab:
  "to_record e core_ab (to_dict record_a False) = record_a"
  "to_record e core_ab (to_dict record_b False) = record_b"
  by (simp_all add: to_record_def from_dict_def concrete_defs)

theorem unknown_field_matches_all_witness:
  "no_known_field '' colour = 1'' \<and>
   filter_func env0 None (1/2) '' colour = 1'' (to_dict record_a False) = Inr (Some (to_dict record_a False)) \<and>
   startswith (upper ''SELECT WHERE colour = 1'') ''SELECT'' \<and>
   select_limit env0 ''SELECT WHERE colour = 1'' = Inr 50 \<and>
   select_vector core_ab ''SELECT WHERE colour = 1'' = Inr None \<and>
   select_score env0 ''SELECT WHERE colour = 1'' = Inr (1/2) \<and>
   select_where ''SELECT WHERE colour = 1'' = '' colour = 1'' \<and>
   execute_select env0 core_ab ''SELECT WHERE colour = 1'' = Inr [record_a, record_b]"
proof -
  note u = upper_colour
  have w: "select_where ''SELECT WHERE colour = 1'' = '' colour = 1''"
    by (simp add: select_where_def u str_eval)
  have nk: "no_known_field '' colour = 1''"
    by (simp add: no_known_field_def startswith_def)
  have l: "select_limit env0 ''SELECT WHERE colour = 1'' = Inr 50"
    by (simp add: select_limit_def u startswith_def)
  have v: "select_vector core_ab ''SELECT WHERE colour = 1'' = Inr None"
    by (simp add: select_vector_def u startswith_def)
  have s: "select_score env0 ''SELECT WHERE colour = 1'' = Inr (1/2)"
    by (simp add: select_score_def u startswith_def)
  have o: "select_order ''SELECT WHERE colour = 1'' = ([], False)"
    by (simp add: select_order_def u startswith_def)
  have st: "startswith (upper ''SELECT WHERE colour = 1'') ''SELECT''"
    by (simp add: u startswith_def)
  from unknown_field_matches_all
    [of "'' colour = 1''" env0 "1/2" "to_dict record_a False" "''SELECT WHERE colour = 1''" 50 core_ab]
  show ?thesis
    using nk st l v s w
    by (simp add: o memories_core_ab mem_files_core_ab to_record_core_ab load_or_index_def
        sort_results_def apply_limit_def slice_to_def)
qed

text \<open>
  The claim as stated fails: the query \<^verbatim>\<open>SELECT WHERE colour = 1\<close> names a field that no record
  has; it is executed without an error and returns both records of the store.
\<close>

theorem unknown_field_counterexample:
  "execute env0 core_ab ''SELECT WHERE colour = 1'' = Inr ([record_a, record_b], core_ab)"
proof -
  note u = upper_colour
  have w: "select_where ''SELECT WHERE colour = 1'' = '' colour = 1''"
    by (simp add: select_where_def u str_eval)
  have f: "filter_func env0 None (1/2) '' colour = 1'' = pure_pred (\<lambda>d. True)"
    by (rule ext) (simp add: filter_func_def where_filter_def keep_def pure_pred_def startswith_def)
  have q: "MemTable_query (table core_ab) (pure_pred (\<lambda>d. True)) =
      Inr [to_dict record_a False, to_dict record_b False]"
    by (simp add: MemTable_query_def pure_pred_def memories_core_ab mem_files_core_ab
        load_or_index_def)
  have o: "select_order ''SELECT WHERE colour = 1'' = ([], False)"
    by (simp add: select_order_def u startswith_def)
  have sel: "execute_select env0 core_ab ''SELECT WHERE colour = 1'' = Inr [record_a, record_b]"
    by (simp add: execute_select_def select_limit_def select_vector_def select_score_def
        u w f q o startswith_def to_record_core_ab sort_results_def apply_limit_def slice_to_def)
  show ?thesis
    by (simp add: execute_def sel u str_eval)
qed











subsection \<open>Codec\<close>

lemma length_le_bytes [simp]: "length (le_bytes k n) = k"
  by (induction k arbitrary: n) simp_all

lemma le_nat_le_bytes: "n < 256 ^ k \<Longrightarrow> le_nat (le_bytes k n) = n"
proof (induction k arbitrary: n)
  case 0
  then show ?case by simp
next
  case (Suc k)
  have "n div 256 < 256 ^ k" using Suc.prems by (simp add: less_mult_imp_div_less mult.commute)
  then have "le_nat (le_bytes k (n div 256)) = n div 256" by (rule Suc.IH)
  moreover have "unat (of_nat (n mod 256) :: byte) = n mod 256"
    by (simp add: unat_of_nat)
  ultimately show ?case by simp
qed

lemma unpack_from_append:
  "length bs = n \<Longrightarrow> unpack_from n (pre @ bs @ post) (length pre) = Inr bs"
  by (simp add: unpack_from_def)

lemma pack_I_length: "pack_I n = Inr bs \<Longrightarrow> length bs = 4 \<and> n < 2 ^ 32"
  by (auto simp: pack_I_def split: if_splits)

lemma unpack_I_pack_I:
  "pack_I n = Inr bs \<Longrightarrow> unpack_I (pre @ bs @ post) (length pre) = Inr n"
  by (auto simp: pack_I_def unpack_I_def and_then_def unpack_from_append le_nat_le_bytes
      split: if_splits)

lemma char_roundtrip: "char_of (unat (of_nat (of_char c) :: byte)) = c"
proof -
  have "of_char c < (256 :: nat)" by simp
  then have "unat (of_nat (of_char c) :: byte) = of_char c"
    by (simp add: unat_of_nat)
  then show ?thesis by simp
qed

lemma utf8_roundtrip:
  "valid_utf8 (utf8_encode s) \<Longrightarrow> utf8_decode (utf8_encode s) = Inr s"
  by (simp add: utf8_decode_def utf8_encode_def char_roundtrip map_idI comp_def)

lemma and_then_Inr: "and_then r f = Inr y \<Longrightarrow> \<exists>x. r = Inr x \<and> f x = Inr y"
  by (cases r) (simp_all add: and_then_def)

lemma and_then_simps [simp]: "and_then (Inr x) f = f x" "and_then (Inl err) f = Inl err"
  by (simp_all add: and_then_def)

lemma decode_str_encode_str:
  assumes "encode_str s = Inr bs" and "str_ok s"
  shows "decode_str (pre @ bs @ post) (length pre) = Inr (s, length pre + length bs)"
proof (cases s)
  case None
  with assms have p: "pack_I sentinel = Inr bs" by (simp add: encode_str_def)
  from unpack_I_pack_I [OF p] pack_I_length [OF p] None show ?thesis
    by (simp add: decode_str_def)
next
  case (Some t)
  with assms obtain h where p: "pack_I (length (utf8_encode t)) = Inr h"
    and bs: "bs = h @ utf8_encode t"
    by (auto simp: encode_str_def dest!: and_then_Inr)
  have ne: "length (utf8_encode t) \<noteq> sentinel" and v: "valid_utf8 (utf8_encode t)"
    using assms(2) Some by (simp_all add: str_ok_def utf8_encode_def)
  have h4: "length h = 4" using pack_I_length [OF p] by simp
  have lb: "length bs = 4 + length (utf8_encode t)" by (simp add: bs h4)
  have u: "unpack_I (pre @ bs @ post) (length pre) = Inr (length (utf8_encode t))"
    using unpack_I_pack_I [OF p, of pre "utf8_encode t @ post"] by (simp add: bs)
  have sl: "take (length (utf8_encode t)) (drop (length pre + 4) (pre @ bs @ post)) = utf8_encode t"
    by (simp add: bs h4)
  show ?thesis
    unfolding decode_str_def u and_then_simps Let_def sl utf8_roundtrip [OF v]
    using ne by (simp add: Some lb)
qed

lemma decode_strs_encode_all:
  "encode_all encode_str lst = Inr bs \<Longrightarrow> list_all str_ok lst \<Longrightarrow>
     decode_strs (length lst) (pre @ bs @ post) (length pre) = Inr (lst, length pre + length bs)"
proof (induction lst arbitrary: bs pre)
  case Nil
  then show ?case by simp
next
  case (Cons s lst)
  from Cons.prems(1) obtain b rest where b: "encode_str s = Inr b"
    and rest: "encode_all encode_str lst = Inr rest" and bs: "bs = b @ rest"
    by (auto dest!: and_then_Inr)
  from Cons.prems(2) have ok: "str_ok s" "list_all str_ok lst" by simp_all
  have 1: "decode_str (pre @ bs @ post) (length pre) = Inr (s, length pre + length b)"
    using decode_str_encode_str [OF b ok(1), of pre "rest @ post"] by (simp add: bs)
  have 2: "decode_strs (length lst) (pre @ bs @ post) (length pre + length b) =
      Inr (lst, length pre + length b + length rest)"
    using Cons.IH [OF rest ok(2), of "pre @ b"] by (simp add: bs)
  have lb: "length bs = length b + length rest" by (simp add: bs)
  show ?case unfolding length_Cons decode_strs.simps 1 and_then_simps prod.case 2
    by (simp add: lb)
qed

lemma pack_f_length: "pack_f x = Inr bs \<Longrightarrow> length bs = 4"
  by (auto simp: pack_f_def dest!: and_then_Inr)

lemma word32_roundtrip: "of_nat (le_nat (le_bytes 4 (unat (v :: float32)))) = v"
proof -
  have "unat v < 2 ^ 32" using unsigned_less [of v, where ?'a = nat] by simp
  then have "unat v < 256 ^ 4" by simp
  then show ?thesis by (simp add: le_nat_le_bytes)
qed

lemma word64_roundtrip: "of_nat (le_nat (le_bytes 8 (unat (v :: float64)))) = v"
proof -
  have "unat v < 2 ^ 64" using unsigned_less [of v, where ?'a = nat] by simp
  then have "unat v < 256 ^ 8" by simp
  then show ?thesis by (simp add: le_nat_le_bytes)
qed

lemma unpack_f_pack_f:
  assumes "pack_f x = Inr bs"
  shows "unpack_f (pre @ bs @ post) (length pre) = Inr (widen32 x)"
proof -
  from assms obtain v where v: "f64_to_f32 x = Inr v" and bs: "bs = le_bytes 4 (unat v)"
    by (auto simp: pack_f_def dest!: and_then_Inr)
  have wide: "widen32 x = f32_to_f64 v" by (simp add: widen32_def v)
  show ?thesis
    by (simp add: unpack_f_def unpack_from_append bs word32_roundtrip wide)
qed

lemma unpack_d_pack_d: "unpack_d (pre @ pack_d x @ post) (length pre) = Inr x"
  by (simp add: unpack_d_def unpack_from_append pack_d_def word64_roundtrip)

lemma unpack_bool_pack_bool: "unpack_bool (pre @ pack_bool b @ post) (length pre) = Inr b"
  by (cases b) (simp_all add: unpack_bool_def unpack_from_def pack_bool_def)

lemma decode_floats_encode_all:
  "encode_all pack_f fs = Inr bs \<Longrightarrow>
     decode_floats (length fs) (pre @ bs @ post) (length pre) =
       Inr (map widen32 fs, length pre + length bs)"
proof (induction fs arbitrary: bs pre)
  case Nil
  then show ?case by simp
next
  case (Cons x fs)
  from Cons.prems(1) obtain b rest where b: "pack_f x = Inr b"
    and rest: "encode_all pack_f fs = Inr rest" and bs: "bs = b @ rest"
    by (auto dest!: and_then_Inr)
  have b4: "length b = 4" by (rule pack_f_length [OF b])
  have 1: "unpack_f (pre @ bs @ post) (length pre) = Inr (widen32 x)"
    using unpack_f_pack_f [OF b, of pre "rest @ post"] by (simp add: bs)
  have 2: "decode_floats (length fs) (pre @ bs @ post) (length pre + 4) =
      Inr (map widen32 fs, length pre + 4 + length rest)"
    using Cons.IH [OF rest, of "pre @ b"] by (simp add: bs b4)
  have lb: "length bs = 4 + length rest" by (simp add: bs b4)
  show ?case unfolding length_Cons decode_floats.simps 1 and_then_simps 2 prod.case
    by (simp add: lb)
qed

lemma update_fresh: "k \<notin> fst ` set al \<Longrightarrow> AList.update k v al = al @ [(k, v)]"
  by (induction al) auto

lemma fold_update_distinct:
  "distinct (map fst (d0 @ d)) \<Longrightarrow>
     fold (\<lambda>(k, v) acc. AList.update k (Some (py_str v)) acc) d d0 = d0 @ map stored_item d"
proof (induction d arbitrary: d0)
  case Nil
  show ?case by simp
next
  case (Cons kv d)
  obtain k v where kv: "kv = (k, v)" by (cases kv)
  have fresh: "k \<notin> fst ` set d0" using Cons.prems(1) by (auto simp: kv)
  have "distinct (map fst ((d0 @ [(k, Some (py_str v))]) @ d))" using Cons.prems(1) by (simp add: kv)
  then have "fold (\<lambda>(k, v) acc. AList.update k (Some (py_str v)) acc) d (d0 @ [(k, Some (py_str v))]) =
      (d0 @ [(k, Some (py_str v))]) @ map stored_item d"
    by (rule Cons.IH)
  then show ?case by (simp add: kv update_fresh [OF fresh] stored_item_def)
qed

lemma decode_items_encode_all:
  "encode_all encode_item d = Inr bs \<Longrightarrow>
   list_all (\<lambda>(k, v). str_ok k \<and> str_ok (Some (py_str v))) d \<Longrightarrow>
     decode_items (length d) (pre @ bs @ post) (length pre) d0 =
       Inr (fold (\<lambda>(k, v) acc. AList.update k (Some (py_str v)) acc) d d0, length pre + length bs)"
proof (induction d arbitrary: bs pre d0)
  case Nil
  then show ?case by simp
next
  case (Cons kv d)
  obtain k v where kv: "kv = (k, v)" by (cases kv)
  from Cons.prems(1) obtain b rest where b: "encode_item (k, v) = Inr b"
    and rest: "encode_all encode_item d = Inr rest" and bs: "bs = b @ rest"
    by (auto simp: kv dest!: and_then_Inr)
  from b obtain bk bv where bk: "encode_str k = Inr bk"
    and bv: "encode_str (Some (py_str v)) = Inr bv" and bb: "b = bk @ bv"
    by (auto simp: encode_item_def dest!: and_then_Inr)
  from Cons.prems(2) have ok: "str_ok k" "str_ok (Some (py_str v))"
    "list_all (\<lambda>(k, v). str_ok k \<and> str_ok (Some (py_str v))) d"
    by (auto simp: kv)
  have 1: "decode_str (pre @ bs @ post) (length pre) = Inr (k, length pre + length bk)"
    using decode_str_encode_str [OF bk ok(1), of pre "bv @ rest @ post"] by (simp add: bs bb)
  have 2: "decode_str (pre @ bs @ post) (length pre + length bk) =
      Inr (Some (py_str v), length pre + length bk + length bv)"
    using decode_str_encode_str [OF bv ok(2), of "pre @ bk" "rest @ post"] by (simp add: bs bb)
  have 3: "decode_items (length d) (pre @ bs @ post) (length pre + length bk + length bv)
        (AList.update k (Some (py_str v)) d0) =
      Inr (fold (\<lambda>(k, v) acc. AList.update k (Some (py_str v)) acc) d
             (AList.update k (Some (py_str v)) d0),
           length pre + length bk + length bv + length rest)"
    using Cons.IH [OF rest ok(3), of "pre @ bk @ bv" "AList.update k (Some (py_str v)) d0"]
    by (simp add: bs bb add.assoc)
  have lb: "length bs = length bk + length bv + length rest" by (simp add: bs bb)
  show ?case
    unfolding kv length_Cons decode_items.simps 1 and_then_simps prod.case 2 3
    by (simp add: lb)
qed

lemma decode_list_str_roundtrip:
  assumes "encode_list_str t = Inr bs"
    and "case t of None \<Rightarrow> True | Some lst \<Rightarrow> length lst \<noteq> sentinel \<and> list_all str_ok lst"
  shows "decode_list_str (pre @ bs @ post) (length pre) = Inr (t, length pre + length bs)"
proof (cases t)
  case None
  with assms have p: "pack_I sentinel = Inr bs" by (simp add: encode_list_str_def)
  from unpack_I_pack_I [OF p] pack_I_length [OF p] None show ?thesis
    by (simp add: decode_list_str_def)
next
  case (Some lst)
  with assms obtain h body where p: "pack_I (length lst) = Inr h"
    and body: "encode_all encode_str lst = Inr body" and bs: "bs = h @ body"
    by (auto simp: encode_list_str_def dest!: and_then_Inr)
  have ok: "length lst \<noteq> sentinel" "list_all str_ok lst" using assms(2) Some by simp_all
  have h4: "length h = 4" using pack_I_length [OF p] by simp
  have u: "unpack_I (pre @ bs @ post) (length pre) = Inr (length lst)"
    using unpack_I_pack_I [OF p, of pre "body @ post"] by (simp add: bs)
  have d: "decode_strs (length lst) (pre @ bs @ post) (length pre + 4) =
      Inr (lst, length pre + 4 + length body)"
    using decode_strs_encode_all [OF body ok(2), of "pre @ h" post] by (simp add: bs h4)
  have lb: "length bs = 4 + length body" by (simp add: bs h4)
  show ?thesis
    unfolding decode_list_str_def u and_then_simps d
    using ok(1) by (simp add: Some lb)
qed

lemma decode_embedding_roundtrip:
  assumes "encode_embedding t = Inr bs"
    and "case t of None \<Rightarrow> True | Some fs \<Rightarrow> length fs \<noteq> sentinel"
  shows "decode_embedding (pre @ bs @ post) (length pre) =
     Inr (map_option (map widen32) t, length pre + length bs)"
proof (cases t)
  case None
  with assms have p: "pack_I sentinel = Inr bs" by (simp add: encode_embedding_def)
  from unpack_I_pack_I [OF p] pack_I_length [OF p] None show ?thesis
    by (simp add: decode_embedding_def)
next
  case (Some fs)
  with assms obtain h body where p: "pack_I (length fs) = Inr h"
    and body: "encode_all pack_f fs = Inr body" and bs: "bs = h @ body"
    by (auto simp: encode_embedding_def dest!: and_then_Inr)
  have ok: "length fs \<noteq> sentinel" using assms(2) Some by simp
  have h4: "length h = 4" using pack_I_length [OF p] by simp
  have u: "unpack_I (pre @ bs @ post) (length pre) = Inr (length fs)"
    using unpack_I_pack_I [OF p, of pre "body @ post"] by (simp add: bs)
  have d: "decode_floats (length fs) (pre @ bs @ post) (length pre + 4) =
      Inr (map widen32 fs, length pre + 4 + length body)"
    using decode_floats_encode_all [OF body, of "pre @ h" post] by (simp add: bs h4)
  have lb: "length bs = 4 + length body" by (simp add: bs h4)
  show ?thesis
    unfolding decode_embedding_def u and_then_simps d
    using ok by (simp add: Some lb)
qed

lemma decode_dict_roundtrip:
  assumes "encode_dict t = Inr bs"
    and "case t of None \<Rightarrow> True | Some d \<Rightarrow>
           length d \<noteq> sentinel \<and> distinct (map fst d) \<and>
           list_all (\<lambda>(k, v). str_ok k \<and> str_ok (Some (py_str v))) d"
  shows "decode_dict (pre @ bs @ post) (length pre) =
     Inr (map_option (map stored_item) t, length pre + length bs)"
proof (cases t)
  case None
  with assms have p: "pack_I sentinel = Inr bs" by (simp add: encode_dict_def)
  from unpack_I_pack_I [OF p] pack_I_length [OF p] None show ?thesis
    by (simp add: decode_dict_def)
next
  case (Some d)
  with assms obtain h body where p: "pack_I (length d) = Inr h"
    and body: "encode_all encode_item d = Inr body" and bs: "bs = h @ body"
    by (auto simp: encode_dict_def dest!: and_then_Inr)
  have ok: "length d \<noteq> sentinel" "distinct (map fst d)"
    "list_all (\<lambda>(k, v). str_ok k \<and> str_ok (Some (py_str v))) d"
    using assms(2) Some by simp_all
  have h4: "length h = 4" using pack_I_length [OF p] by simp
  have u: "unpack_I (pre @ bs @ post) (length pre) = Inr (length d)"
    using unpack_I_pack_I [OF p, of pre "body @ post"] by (simp add: bs)
  have f: "fold (\<lambda>(k, v) acc. AList.update k (Some (py_str v)) acc) d [] = map stored_item d"
    using fold_update_distinct [of "[]" d] ok(2) by simp
  have di: "decode_items (length d) (pre @ bs @ post) (length pre + 4) [] =
      Inr (map stored_item d, length pre + 4 + length body)"
    using decode_items_encode_all [OF body ok(3), of "pre @ h" post "[]"] by (simp add: bs h4 f)
  have lb: "length bs = 4 + length body" by (simp add: bs h4)
  show ?thesis
    unfolding decode_dict_def u and_then_simps di
    using ok(1) by (simp add: Some lb)
qed

lemma decode_raw_raw_data:
  assumes enc: "raw_data m = Inr raw" and ok: "codec_wf m"
  shows "decode_raw raw = Inr (stored m)"
proof -
  from enc obtain p0 p1 p2 p3 p4 p7 p8 where
    e0: "encode_str (m_id m) = Inr p0" and e1: "encode_str (m_content m) = Inr p1" and
    e2: "encode_list_str (m_tags m) = Inr p2" and e3: "encode_dict (m_metadata m) = Inr p3" and
    e4: "pack_f (m_importance m) = Inr p4" and e7: "encode_str (m_source m) = Inr p7" and
    e8: "encode_embedding (m_embedding m) = Inr p8" and
    raw: "raw = p0 @ p1 @ p2 @ p3 @ p4 @ pack_d (or_zero (m_created_at m))
              @ pack_d (or_zero (m_updated_at m)) @ p7 @ p8 @ pack_bool (m_encrypted m)"
    unfolding raw_data_def by (auto dest!: and_then_Inr)
  let ?d5 = "pack_d (or_zero (m_created_at m))" and ?d6 = "pack_d (or_zero (m_updated_at m))"
  let ?pb = "pack_bool (m_encrypted m)"
  from ok have v0: "str_ok (m_id m)" and v1: "str_ok (m_content m)" and v7: "str_ok (m_source m)"
    and v2: "case m_tags m of None \<Rightarrow> True | Some lst \<Rightarrow> length lst \<noteq> sentinel \<and> list_all str_ok lst"
    and v3: "case m_metadata m of None \<Rightarrow> True | Some d \<Rightarrow>
           length d \<noteq> sentinel \<and> distinct (map fst d) \<and>
           list_all (\<lambda>(k, v). str_ok k \<and> str_ok (Some (py_str v))) d"
    and v8: "case m_embedding m of None \<Rightarrow> True | Some fs \<Rightarrow> length fs \<noteq> sentinel"
    by (simp_all add: codec_wf_def)
  have l4: "length p4 = 4" by (rule pack_f_length [OF e4])
  have l5: "length ?d5 = 8" "length ?d6 = 8" by (simp_all add: pack_d_def)
  define i4 where "i4 = length p0 + length p1 + length p2 + length p3"
  have f0: "decode_str raw 0 = Inr (m_id m, length p0)"
    using decode_str_encode_str [OF e0 v0, of "[]" "p1 @ p2 @ p3 @ p4 @ ?d5 @ ?d6 @ p7 @ p8 @ ?pb"]
    by (simp add: raw)
  have f1: "decode_str raw (length p0) = Inr (m_content m, length p0 + length p1)"
    using decode_str_encode_str [OF e1 v1, of p0 "p2 @ p3 @ p4 @ ?d5 @ ?d6 @ p7 @ p8 @ ?pb"]
    by (simp add: raw)
  have f2: "decode_list_str raw (length p0 + length p1) =
      Inr (m_tags m, length p0 + length p1 + length p2)"
    using decode_list_str_roundtrip [OF e2 v2, of "p0 @ p1" "p3 @ p4 @ ?d5 @ ?d6 @ p7 @ p8 @ ?pb"]
    by (simp add: raw)
  have f3: "decode_dict raw (length p0 + length p1 + length p2) =
      Inr (map_option (map stored_item) (m_metadata m), i4)"
    using decode_dict_roundtrip [OF e3 v3, of "p0 @ p1 @ p2" "p4 @ ?d5 @ ?d6 @ p7 @ p8 @ ?pb"]
    by (simp add: raw i4_def add.assoc)
  have f4: "unpack_f raw i4 = Inr (widen32 (m_importance m))"
    using unpack_f_pack_f [OF e4, of "p0 @ p1 @ p2 @ p3" "?d5 @ ?d6 @ p7 @ p8 @ ?pb"]
    by (simp add: raw i4_def add.assoc)
  have f5: "unpack_d raw (i4 + 4) = Inr (or_zero (m_created_at m))"
    using unpack_d_pack_d [of "p0 @ p1 @ p2 @ p3 @ p4" "or_zero (m_created_at m)" "?d6 @ p7 @ p8 @ ?pb"]
    by (simp add: raw i4_def l4 add.assoc)
  have f6: "unpack_d raw (i4 + 12) = Inr (or_zero (m_updated_at m))"
    using unpack_d_pack_d [of "p0 @ p1 @ p2 @ p3 @ p4 @ ?d5" "or_zero (m_updated_at m)" "p7 @ p8 @ ?pb"]
    by (simp add: raw i4_def l4 l5 add.assoc)
  have f7: "decode_str raw (i4 + 20) = Inr (m_source m, i4 + 20 + length p7)"
    using decode_str_encode_str [OF e7 v7, of "p0 @ p1 @ p2 @ p3 @ p4 @ ?d5 @ ?d6" "p8 @ ?pb"]
    by (simp add: raw i4_def l4 l5 add.assoc)
  have f8: "decode_embedding raw (i4 + 20 + length p7) =
      Inr (map_option (map widen32) (m_embedding m), i4 + 20 + length p7 + length p8)"
    using decode_embedding_roundtrip [OF e8 v8, of "p0 @ p1 @ p2 @ p3 @ p4 @ ?d5 @ ?d6 @ p7" ?pb]
    by (simp add: raw i4_def l4 l5 add.assoc)
  have f9: "unpack_bool raw (i4 + 20 + length p7 + length p8) = Inr (m_encrypted m)"
    using unpack_bool_pack_bool [of "p0 @ p1 @ p2 @ p3 @ p4 @ ?d5 @ ?d6 @ p7 @ p8" "m_encrypted m" "[]"]
    by (simp add: raw i4_def l4 l5 add.assoc)
  show ?thesis
    unfolding decode_raw_def f0 and_then_simps prod.case f1 f2 f3 f4 f5 f6 f7 f8 f9
    by (simp add: stored_def)
qed



lemma stored_exact: "codec_exact m \<Longrightarrow> stored m = m"
proof -
  assume e: "codec_exact m"
  have w: "f32_exact x \<Longrightarrow> widen32 x = x" for x
    by (auto simp: f32_exact_def widen32_def split: sum.splits)
  have emb: "map_option (map widen32) (m_embedding m) = m_embedding m"
  proof (cases "m_embedding m")
    case None
    then show ?thesis by simp
  next
    case (Some fs)
    with e have "list_all f32_exact fs" by (simp add: codec_exact_def)
    then have "map widen32 fs = fs" by (induction fs) (simp_all add: w)
    with Some show ?thesis by simp
  qed
  have md: "map_option (map stored_item) (m_metadata m) = m_metadata m"
  proof (cases "m_metadata m")
    case None
    then show ?thesis by simp
  next
    case (Some d)
    with e have "list_all (\<lambda>(k, v). v \<noteq> None) d" by (simp add: codec_exact_def)
    then have "map stored_item d = d"
      by (induction d) (auto simp: stored_item_def py_str_def)
    with Some show ?thesis by simp
  qed
  from e have "widen32 (m_importance m) = m_importance m"
    "or_zero (m_created_at m) = m_created_at m" "or_zero (m_updated_at m) = m_updated_at m"
    by (simp_all add: codec_exact_def w)
  then show ?thesis by (simp add: stored_def emb md)
qed

lemma le_bytes_4:
  "le_bytes 4 n = [of_nat (n mod 256), of_nat (n div 256 mod 256), of_nat (n div 256 div 256 mod 256),
     of_nat (n div 256 div 256 div 256 mod 256)]"
proof -
  have "(4 :: nat) = Suc (Suc (Suc (Suc 0)))" by simp
  then show ?thesis by (simp only: le_bytes.simps)
qed

lemma le_bytes_8:
  "le_bytes 8 n = le_bytes 4 n @ le_bytes 4 (n div 256 div 256 div 256 div 256)"
proof -
  have "(8 :: nat) = Suc (Suc (Suc (Suc (Suc (Suc (Suc (Suc 0)))))))" by simp
  then have "le_bytes 8 n = [of_nat (n mod 256), of_nat (n div 256 mod 256), of_nat (n div 256 div 256 mod 256),
     of_nat (n div 256 div 256 div 256 mod 256)] @ le_bytes 4 (n div 256 div 256 div 256 div 256)"
    by (simp only: le_bytes.simps le_bytes_4 append.simps)
  then show ?thesis by (simp only: le_bytes_4)
qed



lemma f64_to_f32_05: "f64_to_f32 0x3FE0000000000000 = Inr 0x3F000000"
  by (simp add: f64_to_f32_def rne_def Let_def)

lemma f32_to_f64_05: "f32_to_f64 0x3F000000 = 0x3FE0000000000000"
  by (simp add: f32_to_f64_def Let_def)

lemma f64_to_f32_1: "f64_to_f32 0x3FF0000000000000 = Inr 0x3F800000"
  by (simp add: f64_to_f32_def rne_def Let_def)

lemma f32_to_f64_1: "f32_to_f64 0x3F800000 = 0x3FF0000000000000"
  by (simp add: f32_to_f64_def Let_def)


lemma raw_data_mem_a: "\<exists>raw. raw_data mem_a = Inr raw \<and> length raw = 52"
  by (simp add: raw_data_def mem_a_def encode_str_def encode_list_str_def encode_dict_def
      encode_embedding_def pack_I_def sentinel_def utf8_encode_def pack_f_def f64_to_f32_05
      f64_to_f32_1 pack_d_def pack_bool_def or_zero_def)


lemma codec_wf_mem_a: "codec_wf mem_a"
  by (simp add: codec_wf_def mem_a_def str_ok_def utf8_encode_def sentinel_def)


lemma codec_exact_mem_a: "codec_exact mem_a"
  by (simp add: codec_exact_def mem_a_def f32_exact_def f64_to_f32_05 f32_to_f64_05 f64_to_f32_1
      f32_to_f64_1 or_zero_def)





text \<open>
  C2 (amended). The decoders do not compare a declared length with the remaining bytes,
  and the sources have no \<^verbatim>\<open>CorruptRecord\<close> error. When the declared length of a string
  exceeds the bytes that remain, \<^verbatim>\<open>decode_str\<close> does not fail on that account: it decodes
  the bytes that are there and returns them with the offset \<open>offset + 4 + length\<close>, which
  lies beyond the data; only a later fixed-width read at or after that offset fails, with
  \<^verbatim>\<open>struct.error\<close>.
\<close>

theorem decode_str_truncates_silently:
  "unpack_I data offset = Inr len \<and> len \<noteq> sentinel \<and> length data < offset + 4 + len \<longrightarrow>
     decode_str data offset =
       and_then (utf8_decode (drop (offset + 4) data)) (\<lambda>s. Inr (Some s, offset + 4 + len)) \<and>
     decode_str data offset \<noteq> Inl StructError \<and>
     (0 < n \<and> offset + 4 + len \<le> k \<longrightarrow> unpack_from n data k = Inl StructError)"
proof
  assume a: "unpack_I data offset = Inr len \<and> len \<noteq> sentinel \<and> length data < offset + 4 + len"
  then have "length (drop (offset + 4) data) \<le> len" by auto
  then have t: "take len (drop (offset + 4) data) = drop (offset + 4) data" by (rule take_all)
  have 1: "decode_str data offset =
       and_then (utf8_decode (drop (offset + 4) data)) (\<lambda>s. Inr (Some s, offset + 4 + len))"
    using a by (simp add: decode_str_def t Let_def)
  have 2: "decode_str data offset \<noteq> Inl StructError"
    unfolding 1 by (simp add: utf8_decode_def and_then_def)
  have 3: "0 < n \<and> offset + 4 + len \<le> k \<longrightarrow> unpack_from n data k = Inl StructError"
    using a by (simp add: unpack_from_def)
  show "decode_str data offset =
       and_then (utf8_decode (drop (offset + 4) data)) (\<lambda>s. Inr (Some s, offset + 4 + len)) \<and>
     decode_str data offset \<noteq> Inl StructError \<and>
     (0 < n \<and> offset + 4 + len \<le> k \<longrightarrow> unpack_from n data k = Inl StructError)"
    using 1 2 3 by blast
qed

theorem decode_str_truncates_silently_witness:
  "unpack_I [5, 0, 0, 0, 0x61, 0x62] 0 = Inr 5 \<and> 5 \<noteq> sentinel \<and>
   length [5, 0, 0, 0, 0x61, 0x62 :: byte] < 0 + 4 + 5 \<and>
   decode_str [5, 0, 0, 0, 0x61, 0x62] 0 = Inr (Some ''ab'', 9) \<and>
   unpack_from 1 [5, 0, 0, 0, 0x61, 0x62] 9 = Inl StructError"
proof -
  have u: "unpack_I [5, 0, 0, 0, 0x61, 0x62] 0 = Inr 5"
    by (simp add: unpack_I_def unpack_from_def)
  have s: "(5 :: nat) \<noteq> sentinel" by (simp add: sentinel_def)
  have d: "utf8_decode [0x61, 0x62] = Inr ''ab''"
    by (simp add: utf8_decode_def char_of_eq_iff)
  from decode_str_truncates_silently [of "[5, 0, 0, 0, 0x61, 0x62]" 0 5 1 9] u s
  show ?thesis by (simp add: d)
qed

text \<open>
  The claim as stated fails. A string whose prefix declares five bytes where two remain is
  decoded as the two bytes. And the serialization of a record whose outer prefix declares
  five bytes more than remain is deserialized to the record, with a next offset of \<open>61\<close>
  in data of \<open>56\<close> bytes.
\<close>

theorem declared_length_counterexample:
  "decode_str [5, 0, 0, 0, 0x61, 0x62] 0 = Inr (Some ''ab'', 9) \<and>
   length overlong_a = 56 \<and>
   unpack_I overlong_a 0 = Inr 57 \<and>
   deserialize_mem zlib_identity overlong_a 0 = Inr (mem_a, 61)"
proof -
  have 1: "decode_str [5, 0, 0, 0, 0x61, 0x62] 0 = Inr (Some ''ab'', 9)"
    by (simp add: decode_str_def unpack_I_def unpack_from_def sentinel_def utf8_decode_def Let_def
        char_of_eq_iff)
  obtain raw where raw: "raw_data mem_a = Inr raw" and len: "length raw = 52"
    using raw_data_mem_a by blast
  have o: "overlong_a = le_bytes 4 57 @ raw" by (simp add: overlong_a_def raw len)
  have p: "pack_I 57 = Inr (le_bytes 4 57)" by (simp add: pack_I_def)
  have u: "unpack_I overlong_a 0 = Inr 57"
    using unpack_I_pack_I [OF p, of "[]" raw] by (simp add: o)
  have t: "take 57 (drop 4 overlong_a) = raw" by (simp add: o len)
  have d: "decode_raw raw = Inr mem_a"
    using decode_raw_raw_data [OF raw codec_wf_mem_a] stored_exact [OF codec_exact_mem_a] by simp
  have "deserialize_mem zlib_identity overlong_a 0 = Inr (mem_a, 61)"
    unfolding deserialize_mem_def u and_then_simps Let_def
    by (simp add: t zlib_identity_def d)
  then show ?thesis using 1 u by (simp add: o len)
qed

end
